theory Spec2Isabelle
  imports Main
begin

section \<open>JavaScript values used by the handlers\<close>

text \<open>
  A request field that may be \<^verbatim>\<open>undefined\<close> is a \<open>string option\<close>.
  \<open>falsy v\<close> is JavaScript's \<^verbatim>\<open>!v\<close> on such a value: true for
  \<^verbatim>\<open>undefined\<close> and for the empty string.
\<close>

definition falsy :: "string option \<Rightarrow> bool" where
  "falsy v = (case v of None \<Rightarrow> True | Some s \<Rightarrow> s = [])"

text \<open>\<^verbatim>\<open>s.startsWith(t)\<close>.\<close>

definition startsWith :: "string \<Rightarrow> string \<Rightarrow> bool" where
  "startsWith s t = (take (length t) s = t)"

text \<open>
  \<^verbatim>\<open>s.split(c)\<close> for a one-character separator: every occurrence of the
  separator ends a segment, so a string with n separators has n + 1 segments and
  \<^verbatim>\<open>"".split(" ")\<close> is \<^verbatim>\<open>[""]\<close>.
\<close>

fun split :: "char \<Rightarrow> string \<Rightarrow> string list" where
  "split c [] = [[]]"
| "split c (x # xs) =
     (if x = c then [] # split c xs
      else (case split c xs of
              [] \<Rightarrow> [[x]]
            | seg # segs \<Rightarrow> (x # seg) # segs))"

text \<open>\<^verbatim>\<open>xs[i]\<close> on an array: \<^verbatim>\<open>undefined\<close> out of range.\<close>

fun index :: "'a list \<Rightarrow> nat \<Rightarrow> 'a option" where
  "index [] i = None"
| "index (x # xs) 0 = Some x"
| "index (x # xs) (Suc i) = index xs i"

section \<open>Data model\<close>

text \<open>
  Rows of the three tables. A column of \<open>posts\<close> that the UPDATE statement can set
  holds an SQL value that may be NULL (\<open>None\<close>): node-postgres sends an
  \<^verbatim>\<open>undefined\<close> parameter as NULL.
\<close>

record user_row =
  u_id :: nat
  u_name :: string
  u_email :: string
  u_password :: string

record post_row =
  p_id :: nat
  p_user_id :: nat
  p_title :: "string option"
  p_description :: "string option"
  p_content :: "string option"
  p_created_at :: nat

record attachment_row =
  a_id :: nat
  a_post_id :: nat
  a_url :: string
  a_type :: string

text \<open>A file as multer hands it to the handler (memory storage).\<close>

record upload_file =
  originalname :: string
  mimetype :: string
  buffer :: string

text \<open>The attachment descriptor the handler pushes for each uploaded file.\<close>

record attachment =
  url :: string
  type :: string

text \<open>
  The payload passed to \<^verbatim>\<open>jwt.sign\<close> and the object \<^verbatim>\<open>jwt.verify\<close>
  returns (the payload with the issue and expiry times the library adds).
\<close>

record jwt_payload =
  jp_id :: nat
  jp_email :: string

record jwt_decoded =
  d_id :: nat
  d_email :: string
  d_iat :: nat
  d_exp :: nat

datatype column = Title | Description | Content

datatype error =
    Error string
  | DatabaseError string
  | NotNullViolation column
  | UniqueViolation
  | BindError
  | InvalidInteger string
  | BcryptArguments
  | JwtSecretMissing

datatype sql_value = IntV nat | TextV string

datatype sql =
    BEGIN
  | COMMIT
  | ROLLBACK
  | INSERT_POST
  | INSERT_ATTACHMENTS
  | UPDATE_POST
  | DELETE_POST
  | SELECT_USER
  | INSERT_USER

text \<open>
  What is outside the repository: the libraries (bcrypt, jsonwebtoken), the media host
  behind \<^verbatim>\<open>cloudinary.uploader.upload_stream\<close>, the process environment, the
  clock, the schema, and the database server.
  \<^item> \<open>JWT_SECRET\<close> is \<^verbatim>\<open>process.env.JWT_SECRET\<close>; the empty string stands for
    a variable that is unset or empty (both are falsy).
  \<^item> The media host's answer may depend on everything it was sent before (the list of
    earlier uploads); \<open>None\<close> is the error callback, \<open>Some u\<close> a result whose
    \<^verbatim>\<open>secure_url\<close> is \<open>u\<close>.
  \<^item> \<open>not_null\<close> says which columns of \<open>posts\<close> have a NOT NULL constraint.
  \<^item> \<open>pg_integer\<close> is the server's reading of a text parameter as a value of the id
    column of \<open>posts\<close>; \<open>None\<close> is the error it raises for a text that is not a
    number or is out of the column's range.
  \<^item> \<open>insert_post_error\<close>, \<open>insert_attachments_error\<close>, \<open>update_post_error\<close>,
    \<open>delete_post_error\<close>, \<open>select_user_error\<close> and \<open>insert_user_error\<close> say
    whether the server executes the statement (\<open>None\<close>) or the query is rejected with an error for a reason of
    its own, such as a lost connection (\<open>Some message\<close>).
\<close>

record env =
  JWT_SECRET :: string
  now :: nat
  jwt_sign :: "jwt_payload \<Rightarrow> string \<Rightarrow> nat \<Rightarrow> nat \<Rightarrow> string"
  jwt_verify :: "string \<Rightarrow> string \<Rightarrow> nat \<Rightarrow> jwt_decoded option"
  bcrypt_hash :: "string \<Rightarrow> string"
  bcrypt_compare :: "string \<Rightarrow> string \<Rightarrow> bool"
  upload_stream :: "upload_file list \<Rightarrow> upload_file \<Rightarrow> string option"
  insert_post_error :: "string option"
  insert_attachments_error :: "string option"
  not_null :: "column \<Rightarrow> bool"
  pg_integer :: "string \<Rightarrow> int option"
  update_post_error :: "string option"
  delete_post_error :: "string option"
  select_user_error :: "string option"
  insert_user_error :: "string option"

text \<open>
  The state a request runs against: the committed tables, their id sequences, the rows
  written by the open transaction of the checked-out client (visible to others only
  after COMMIT), how many times a client was taken from the pool and how many clients
  are checked out now, every statement sent to the database so far, and every file sent
  to the media host so far.
\<close>

record world =
  users :: "user_row list"
  posts :: "post_row list"
  attachments :: "attachment_row list"
  users_seq :: nat
  posts_seq :: nat
  attachments_seq :: nat
  pending_posts :: "post_row list"
  pending_attachments :: "attachment_row list"
  connections :: nat
  checked_out :: nat
  queries :: "sql list"
  uploads :: "upload_file list"

text \<open>
  The request as the middlewares see and extend it: the authorization header, the
  \<^verbatim>\<open>:id\<close> route parameter (the path segment as sent), the body fields, the file parts of the multipart
  field \<^verbatim>\<open>files\<close> in the order sent, \<^verbatim>\<open>req.user\<close> (set by
  \<open>verifyToken\<close>) and \<^verbatim>\<open>req.files\<close> (set by multer).
\<close>

record request =
  authorization :: "string option"
  param_id :: string
  title :: "string option"
  description :: "string option"
  content :: "string option"
  parts :: "upload_file list"
  user :: "jwt_decoded option"
  files :: "upload_file list"

datatype body =
    Msg string
  | Failure string error
  | FailureWithStack string error
  | Post post_row
  | PostWithAttachments post_row "attachment list"
  | User nat string string
  | Login string nat string

text \<open>
  How a route ends: a JSON response with its status, an error passed to
  \<^verbatim>\<open>next(err)\<close> (answered by whatever error handler the application
  installs, outside these routers), or a rejected promise that nothing answers.
\<close>

datatype outcome =
    Respond nat body
  | NextError string
  | Unhandled

definition status :: "outcome \<Rightarrow> nat option" where
  "status out = (case out of Respond s b \<Rightarrow> Some s | NextError e \<Rightarrow> None | Unhandled \<Rightarrow> None)"

section \<open>Auth middleware (middleware/validateUser.mjs)\<close>

text \<open>\<^verbatim>\<open>req.headers.authorization?.split(" ")[1]\<close>\<close>

definition token_of :: "string option \<Rightarrow> string option" where
  "token_of header =
     (case header of
        None \<Rightarrow> None
      | Some s \<Rightarrow> index (split (CHR '' '') s) 1)"

text \<open>
  \<^verbatim>\<open>!token\<close> holds for \<^verbatim>\<open>undefined\<close> and for the empty segment.
  \<^verbatim>\<open>next()\<close> is the rest of the route, run on the request with
  \<^verbatim>\<open>req.user\<close> set.
\<close>

definition verifyToken ::
  "env \<Rightarrow> request \<Rightarrow> (request \<Rightarrow> world \<Rightarrow> outcome \<times> world) \<Rightarrow> world \<Rightarrow> outcome \<times> world" where
  "verifyToken e req next w =
     (case token_of (authorization req) of
        None \<Rightarrow> (Respond 401 (Msg ''Token missing''), w)
      | Some token \<Rightarrow>
          if token = [] then (Respond 401 (Msg ''Token missing''), w)
          else (case jwt_verify e token (JWT_SECRET e) (now e) of
                  Some decoded \<Rightarrow> next (req\<lparr>user := Some decoded\<rparr>) w
                | None \<Rightarrow> (Respond 403 (Msg ''Invalid token''), w)))"

section \<open>Upload middleware (routes/posts.mjs, the multer instance)\<close>

text \<open>\<^verbatim>\<open>limits.fileSize\<close>: 10 MB.\<close>

definition fileSize :: nat where
  "fileSize = 10 * 1024 * 1024"

text \<open>
  The \<^verbatim>\<open>fileFilter\<close> callback: \<open>True\<close> is \<^verbatim>\<open>cb(null, true)\<close>,
  \<open>False\<close> is \<^verbatim>\<open>cb(new Error("Invalid file type"))\<close>.
\<close>

definition fileFilter :: "upload_file \<Rightarrow> bool" where
  "fileFilter f =
     list_ex (\<lambda>t. startsWith (mimetype f) t) [''image/'', ''video/'', ''application/pdf'']"

text \<open>
  \<^verbatim>\<open>upload.array("files", 5)\<close> over the file parts in the order they arrive,
  as multer documents it: a part beyond the maximum count is refused
  (\<^verbatim>\<open>LIMIT_UNEXPECTED_FILE\<close>), then the file filter is asked, then the part is
  read into memory and refused as soon as it reaches \<open>fileSize\<close> bytes
  (\<^verbatim>\<open>LIMIT_FILE_SIZE\<close>), so a file is accepted only below the limit. The first
  refusal ends the parsing with that error.
  \<open>left\<close> is the number of files still allowed.
\<close>

fun multer_array :: "nat \<Rightarrow> upload_file list \<Rightarrow> string + upload_file list" where
  "multer_array left [] = Inr []"
| "multer_array left (f # fs) =
     (if left = 0 then Inl ''Unexpected field''
      else if \<not> fileFilter f then Inl ''Invalid file type''
      else if fileSize \<le> length (buffer f) then Inl ''File too large''
      else (case multer_array (left - 1) fs of
              Inl err \<Rightarrow> Inl err
            | Inr accepted \<Rightarrow> Inr (f # accepted)))"

text \<open>
  The middleware: on a refusal multer calls \<^verbatim>\<open>next(err)\<close>, and the route's
  handler is skipped; otherwise \<^verbatim>\<open>req.files\<close> is set and the handler runs.
\<close>

definition upload_array ::
  "request \<Rightarrow> (request \<Rightarrow> world \<Rightarrow> outcome \<times> world) \<Rightarrow> world \<Rightarrow> outcome \<times> world" where
  "upload_array req next w =
     (case multer_array 5 (parts req) of
        Inl err \<Rightarrow> (NextError err, w)
      | Inr accepted \<Rightarrow> next (req\<lparr>files := accepted\<rparr>) w)"

section \<open>The database client\<close>

text \<open>
  One request is followed on its own. A client taken from the pool runs the statements
  of the request in order; between BEGIN and COMMIT the rows it inserts are pending, a
  COMMIT appends them to the tables and a ROLLBACK drops them. BEGIN, COMMIT and
  ROLLBACK always execute; whether an INSERT executes is the environment's choice.
\<close>

definition pool_connect :: "world \<Rightarrow> world" where
  "pool_connect w = w\<lparr>connections := Suc (connections w), checked_out := Suc (checked_out w)\<rparr>"

definition release :: "world \<Rightarrow> world" where
  "release w = w\<lparr>checked_out := checked_out w - 1\<rparr>"

definition query_BEGIN :: "world \<Rightarrow> world" where
  "query_BEGIN w =
     w\<lparr>pending_posts := [], pending_attachments := [], queries := queries w @ [BEGIN]\<rparr>"

definition query_COMMIT :: "world \<Rightarrow> world" where
  "query_COMMIT w =
     w\<lparr>posts := posts w @ pending_posts w,
       attachments := attachments w @ pending_attachments w,
       pending_posts := [], pending_attachments := [],
       queries := queries w @ [COMMIT]\<rparr>"

definition query_ROLLBACK :: "world \<Rightarrow> world" where
  "query_ROLLBACK w =
     w\<lparr>pending_posts := [], pending_attachments := [], queries := queries w @ [ROLLBACK]\<rparr>"

text \<open>
  \<^verbatim>\<open>INSERT INTO posts (user_id, title, description, content) VALUES ($1, $2, $3, $4)
  RETURNING *\<close>: the id comes from the sequence, which a rollback does not reset.
\<close>

definition insert_post ::
  "env \<Rightarrow> nat \<Rightarrow> string option \<Rightarrow> string option \<Rightarrow> string option \<Rightarrow> world
     \<Rightarrow> (error + post_row) \<times> world" where
  "insert_post e userId t d c w =
     (let w1 = w\<lparr>queries := queries w @ [INSERT_POST]\<rparr> in
      case insert_post_error e of
        Some m \<Rightarrow> (Inl (DatabaseError m), w1)
      | None \<Rightarrow>
          (let row = \<lparr>p_id = Suc (posts_seq w), p_user_id = userId, p_title = t,
                       p_description = d, p_content = c, p_created_at = now e\<rparr>
           in (Inr row, w1\<lparr>posts_seq := Suc (posts_seq w),
                             pending_posts := pending_posts w @ [row]\<rparr>)))"

text \<open>
  The batch insert of the attachments. The statement's text has one tuple of
  placeholders per attachment, \<^verbatim>\<open>($1, $2, $3), ($1, $4, $5), ...\<close>, and
  \<^verbatim>\<open>values\<close> is the post id followed by each attachment's url and type.
  Placeholder \<^verbatim>\<open>$k\<close> is \<^verbatim>\<open>values[k - 1]\<close>.
\<close>

definition placeholders :: "'a list \<Rightarrow> (nat \<times> nat \<times> nat) list" where
  "placeholders atts = map (\<lambda>i. (1, i * 2 + 2, i * 2 + 3)) [0..<length atts]"

definition attachment_values :: "nat \<Rightarrow> attachment list \<Rightarrow> sql_value list" where
  "attachment_values postId atts =
     IntV postId # concat (map (\<lambda>att. [TextV (url att), TextV (type att)]) atts)"

definition bind :: "sql_value list \<Rightarrow> nat \<Rightarrow> sql_value option" where
  "bind vs k = (if k = 0 then None else index vs (k - 1))"

definition bind_tuple :: "sql_value list \<Rightarrow> nat \<times> nat \<times> nat \<Rightarrow> (nat \<times> string \<times> string) option" where
  "bind_tuple vs ph =
     (case ph of (i, j, k) \<Rightarrow>
        (case (bind vs i, bind vs j, bind vs k) of
           (Some (IntV p), Some (TextV u), Some (TextV t)) \<Rightarrow> Some (p, u, t)
         | _ \<Rightarrow> None))"

definition attachment_rows :: "nat \<Rightarrow> (nat \<times> string \<times> string) list \<Rightarrow> attachment_row list" where
  "attachment_rows seq tuples =
     map (\<lambda>(i, (p, u, t)). \<lparr>a_id = seq + Suc i, a_post_id = p, a_url = u, a_type = t\<rparr>)
       (enumerate 0 tuples)"

definition insert_attachments ::
  "env \<Rightarrow> nat \<Rightarrow> attachment list \<Rightarrow> world \<Rightarrow> (error + unit) \<times> world" where
  "insert_attachments e postId atts w =
     (let w1 = w\<lparr>queries := queries w @ [INSERT_ATTACHMENTS]\<rparr>;
          vs = attachment_values postId atts
      in case insert_attachments_error e of
           Some m \<Rightarrow> (Inl (DatabaseError m), w1)
         | None \<Rightarrow>
             (case those (map (bind_tuple vs) (placeholders atts)) of
                None \<Rightarrow> (Inl BindError, w1)
              | Some tuples \<Rightarrow>
                  (Inr (), w1\<lparr>attachments_seq := attachments_seq w + length tuples,
                               pending_attachments :=
                                 pending_attachments w @ attachment_rows (attachments_seq w) tuples\<rparr>)))"

section \<open>Creating a post (routes/posts.mjs, POST /)\<close>

text \<open>The type tag of an attachment, from the file's MIME type.\<close>

definition attachment_type :: "string \<Rightarrow> string" where
  "attachment_type m =
     (if startsWith m ''image'' then ''image''
      else if startsWith m ''video'' then ''video''
      else ''pdf'')"

text \<open>
  The loop over \<^verbatim>\<open>req.files\<close>: each file is sent to the media host and the
  loop waits for the answer before it goes on. An error answer is rethrown as
  \<^verbatim>\<open>new Error("File upload failed")\<close>, which leaves the loop.
\<close>

fun upload_files ::
  "env \<Rightarrow> upload_file list \<Rightarrow> attachment list \<Rightarrow> world \<Rightarrow> (error + attachment list) \<times> world" where
  "upload_files e [] atts w = (Inr atts, w)"
| "upload_files e (f # fs) atts w =
     (let w1 = w\<lparr>uploads := uploads w @ [f]\<rparr> in
      case upload_stream e (uploads w) f of
        None \<Rightarrow> (Inl (Error ''File upload failed''), w1)
      | Some secure_url \<Rightarrow>
          upload_files e fs
            (atts @ [\<lparr>url = secure_url, type = attachment_type (mimetype f)\<rparr>]) w1)"

text \<open>
  The body of the \<^verbatim>\<open>try\<close> block: \<open>Inl\<close> is the exception that reaches the
  \<^verbatim>\<open>catch\<close>, \<open>Inr\<close> the body of the 201 response.
\<close>

definition create_post_try :: "env \<Rightarrow> nat \<Rightarrow> request \<Rightarrow> world \<Rightarrow> (error + body) \<times> world" where
  "create_post_try e userId req w =
     (case insert_post e userId (title req) (description req) (content req) (query_BEGIN w) of
        (Inl err, w1) \<Rightarrow> (Inl err, w1)
      | (Inr postRow, w1) \<Rightarrow>
          (case (if files req \<noteq> []
                 then (case upload_files e (files req) [] w1 of
                         (Inl err, w2) \<Rightarrow> (Inl err, w2)
                       | (Inr atts, w2) \<Rightarrow>
                           (case insert_attachments e (p_id postRow) atts w2 of
                              (Inl err, w3) \<Rightarrow> (Inl err, w3)
                            | (Inr u, w3) \<Rightarrow> (Inr atts, w3)))
                 else (Inr [], w1)) of
             (Inl err, w4) \<Rightarrow> (Inl err, w4)
           | (Inr atts, w4) \<Rightarrow> (Inr (PostWithAttachments postRow atts), query_COMMIT w4)))"

text \<open>
  The handler. \<^verbatim>\<open>req.user.id\<close> on a request without \<^verbatim>\<open>req.user\<close> is
  a TypeError in an async function: a rejected promise (the route never gets there,
  \<open>verifyToken\<close> runs first).
\<close>

definition create_post :: "env \<Rightarrow> request \<Rightarrow> world \<Rightarrow> outcome \<times> world" where
  "create_post e req w =
     (case user req of
        None \<Rightarrow> (Unhandled, w)
      | Some u \<Rightarrow>
          if falsy (title req) \<or> falsy (description req) \<or> falsy (content req)
          then (Respond 400 (Msg ''Missing required fields''), w)
          else (case create_post_try e (d_id u) req (pool_connect w) of
                  (Inr created, w1) \<Rightarrow> (Respond 201 created, release w1)
                | (Inl err, w1) \<Rightarrow>
                    (Respond 500 (FailureWithStack ''Post creation failed'' err),
                     release (query_ROLLBACK w1))))"

text \<open>
  Names for what a successful request creates: the row the INSERT returns, and the
  descriptors of the uploaded files given the urls the media host answered with.
\<close>

definition new_post :: "env \<Rightarrow> world \<Rightarrow> nat \<Rightarrow> request \<Rightarrow> post_row" where
  "new_post e w userId req =
     \<lparr>p_id = Suc (posts_seq w), p_user_id = userId, p_title = title req,
      p_description = description req, p_content = content req, p_created_at = now e\<rparr>"


text \<open>\<^verbatim>\<open>router.post("/", verifyToken, upload.array("files", 5), handler)\<close>\<close>

definition post_route :: "env \<Rightarrow> request \<Rightarrow> world \<Rightarrow> outcome \<times> world" where
  "post_route e req w = verifyToken e req (\<lambda>req1. upload_array req1 (create_post e)) w"

section \<open>Updating and deleting a post (routes/posts.mjs, PUT /:id and DELETE /:id)\<close>

text \<open>
  \<^verbatim>\<open>UPDATE posts SET title=$1, description=$2, content=$3 WHERE id=$4 AND
  user_id=$5 RETURNING *\<close>, with the path segment as \<^verbatim>\<open>$4\<close>. The query is
  rejected when the server does not execute the statement, when it cannot read
  \<^verbatim>\<open>$4\<close> as an id, and when a row would get NULL in a NOT NULL column; that
  constraint is checked on the rows the statement writes, so it fails the statement only
  when a row matches.
\<close>

definition null_violation :: "env \<Rightarrow> string option \<Rightarrow> string option \<Rightarrow> string option \<Rightarrow> column option" where
  "null_violation e t d c =
     map_option fst
       (find (\<lambda>(col, v). not_null e col \<and> v = None) [(Title, t), (Description, d), (Content, c)])"

definition query_UPDATE ::
  "env \<Rightarrow> string option \<Rightarrow> string option \<Rightarrow> string option \<Rightarrow> string \<Rightarrow> nat \<Rightarrow> world
     \<Rightarrow> (error + post_row list) \<times> world" where
  "query_UPDATE e t d c postId userId w =
     (let w1 = w\<lparr>queries := queries w @ [UPDATE_POST]\<rparr> in
      case update_post_error e of
        Some m \<Rightarrow> (Inl (DatabaseError m), w1)
      | None \<Rightarrow>
          (case pg_integer e postId of
             None \<Rightarrow> (Inl (InvalidInteger postId), w1)
           | Some k \<Rightarrow>
               (let hit = (\<lambda>p. int (p_id p) = k \<and> p_user_id p = userId);
                    written = (\<lambda>p. p\<lparr>p_title := t, p_description := d, p_content := c\<rparr>)
                in if filter hit (posts w) = [] then (Inr [], w1)
                   else (case null_violation e t d c of
                           Some col \<Rightarrow> (Inl (NotNullViolation col), w1)
                         | None \<Rightarrow>
                             (Inr (map written (filter hit (posts w))),
                              w1\<lparr>posts := map (\<lambda>p. if hit p then written p else p)
                                              (posts w)\<rparr>)))))"

text \<open>
  The handler: a rejected query is the \<^verbatim>\<open>catch\<close> (500), no row in the result
  is 403, otherwise the first row is sent.
\<close>

definition update_post :: "env \<Rightarrow> request \<Rightarrow> world \<Rightarrow> outcome \<times> world" where
  "update_post e req w =
     (case user req of
        None \<Rightarrow> (Unhandled, w)
      | Some u \<Rightarrow>
          (case query_UPDATE e (title req) (description req) (content req)
                  (param_id req) (d_id u) w of
             (Inl err, w1) \<Rightarrow> (Respond 500 (Failure ''Update failed'' err), w1)
           | (Inr [], w1) \<Rightarrow> (Respond 403 (Msg ''Unauthorized or not found''), w1)
           | (Inr (row # rows), w1) \<Rightarrow> (Respond 200 (Post row), w1)))"

definition put_route :: "env \<Rightarrow> request \<Rightarrow> world \<Rightarrow> outcome \<times> world" where
  "put_route e req w = verifyToken e req (update_post e) w"

text \<open>
  \<^verbatim>\<open>DELETE FROM posts WHERE id=$1 AND user_id=$2 RETURNING *\<close>, with the path
  segment as \<^verbatim>\<open>$1\<close>. The query is rejected when the server does not execute the
  statement and when it cannot read \<^verbatim>\<open>$1\<close> as an id.

  Modelled from the spec: the schema is not among the sources; the spec says that an
  attachment is destroyed when its parent post is destroyed, enforced by the store, so
  the deletion of a post takes the attachments that reference it along.
\<close>

definition query_DELETE :: "env \<Rightarrow> string \<Rightarrow> nat \<Rightarrow> world \<Rightarrow> (error + post_row list) \<times> world" where
  "query_DELETE e postId userId w =
     (let w1 = w\<lparr>queries := queries w @ [DELETE_POST]\<rparr> in
      case delete_post_error e of
        Some m \<Rightarrow> (Inl (DatabaseError m), w1)
      | None \<Rightarrow>
          (case pg_integer e postId of
             None \<Rightarrow> (Inl (InvalidInteger postId), w1)
           | Some k \<Rightarrow>
               (let hit = (\<lambda>p. int (p_id p) = k \<and> p_user_id p = userId);
                    deleted = filter hit (posts w)
                in (Inr deleted,
                    w1\<lparr>posts := filter (\<lambda>p. \<not> hit p) (posts w),
                       attachments :=
                         (if deleted = [] then attachments w
                          else filter (\<lambda>a. int (a_post_id a) \<noteq> k) (attachments w))\<rparr>))))"

definition delete_post :: "env \<Rightarrow> request \<Rightarrow> world \<Rightarrow> outcome \<times> world" where
  "delete_post e req w =
     (case user req of
        None \<Rightarrow> (Unhandled, w)
      | Some u \<Rightarrow>
          (case query_DELETE e (param_id req) (d_id u) w of
             (Inl err, w1) \<Rightarrow> (Respond 500 (Failure ''Delete failed'' err), w1)
           | (Inr [], w1) \<Rightarrow> (Respond 403 (Msg ''Unauthorized or not found''), w1)
           | (Inr (row # rows), w1) \<Rightarrow> (Respond 200 (Msg ''Post deleted successfully''), w1)))"

definition delete_route :: "env \<Rightarrow> request \<Rightarrow> world \<Rightarrow> outcome \<times> world" where
  "delete_route e req w = verifyToken e req (delete_post e) w"

section \<open>Registration and login (the auth router)\<close>




section \<open>What the libraries promise\<close>



section \<open>An example environment\<close>

text \<open>
  Stand-ins for the libraries, small enough to compute with: a token is the secret, a
  dot, the id in unary, a dot and the email; a hash is the password behind a prefix. The
  media host refuses every video and stores everything else.
\<close>

definition toy_sign :: "jwt_payload \<Rightarrow> string \<Rightarrow> nat \<Rightarrow> nat \<Rightarrow> string" where
  "toy_sign payload secret expiresIn t =
     secret @ CHR ''.'' # replicate (jp_id payload) (CHR ''i'') @ CHR ''.'' # jp_email payload"

definition toy_verify :: "string \<Rightarrow> string \<Rightarrow> nat \<Rightarrow> jwt_decoded option" where
  "toy_verify token secret t =
     (if startsWith token (secret @ ''.'')
      then (let rest = drop (length secret + 1) token in
            Some \<lparr>d_id = length (takeWhile (\<lambda>c. c = CHR ''i'') rest),
                  d_email = drop 1 (dropWhile (\<lambda>c. c = CHR ''i'') rest),
                  d_iat = t, d_exp = t + 86400\<rparr>)
      else None)"

text \<open>
  The id column as a \<^verbatim>\<open>serial\<close>: the server reads a decimal numeral up to
  2147483647 and raises an error for any other text.
\<close>

definition digit :: "char \<Rightarrow> nat option" where
  "digit c = map_of (zip ''0123456789'' [0, 1, 2, 3, 4, 5, 6, 7, 8, 9]) c"

fun decimal :: "nat \<Rightarrow> string \<Rightarrow> nat option" where
  "decimal n [] = Some n"
| "decimal n (c # cs) =
     (case digit c of
        None \<Rightarrow> None
      | Some d \<Rightarrow> decimal (10 * n + d) cs)"

definition serial_of :: "string \<Rightarrow> int option" where
  "serial_of s =
     (if s = [] then None
      else (case decimal 0 s of
              None \<Rightarrow> None
            | Some n \<Rightarrow> if n \<le> 2147483647 then Some (int n) else None))"



definition toy_env :: env where
  "toy_env =
     \<lparr>JWT_SECRET = ''s3cret'', now = 1000,
      jwt_sign = toy_sign, jwt_verify = toy_verify,
      bcrypt_hash = (\<lambda>password. ''$2b$'' @ password),
      bcrypt_compare = (\<lambda>password hash. hash = ''$2b$'' @ password),
      upload_stream =
        (\<lambda>earlier f. if startsWith (mimetype f) ''video/'' then None
                     else Some (''https://media.example/'' @ originalname f)),
      insert_post_error = None, insert_attachments_error = None,
      not_null = (\<lambda>col. True),
      pg_integer = serial_of,
      update_post_error = None, delete_post_error = None,
      select_user_error = None, insert_user_error = None\<rparr>"

definition ada :: user_row where
  "ada = \<lparr>u_id = 1, u_name = ''Ada'', u_email = ''ada@example.org'', u_password = ''$2b$hunter2''\<rparr>"

definition first_post :: post_row where
  "first_post =
     \<lparr>p_id = 1, p_user_id = 1, p_title = Some ''Hello'', p_description = Some ''A greeting'',
      p_content = Some ''Hello, world'', p_created_at = 900\<rparr>"

definition toy_world :: world where
  "toy_world =
     \<lparr>users = [ada], posts = [first_post], attachments = [],
      users_seq = 1, posts_seq = 1, attachments_seq = 0,
      pending_posts = [], pending_attachments = [],
      connections = 0, checked_out = 0, queries = [], uploads = []\<rparr>"

definition ada_token :: string where
  "ada_token = ''s3cret.i.ada@example.org''"

definition bob_token :: string where
  "bob_token = ''s3cret.ii.bob@example.org''"

definition ada_decoded :: jwt_decoded where
  "ada_decoded = \<lparr>d_id = 1, d_email = ''ada@example.org'', d_iat = 1000, d_exp = 87400\<rparr>"

definition bare_request :: request where
  "bare_request =
     \<lparr>authorization = None, param_id = ''1'', title = None, description = None, content = None,
      parts = [], user = None, files = []\<rparr>"

definition photo :: upload_file where
  "photo = \<lparr>originalname = ''cat.png'', mimetype = ''image/png'', buffer = ''PNG''\<rparr>"

definition clip :: upload_file where
  "clip = \<lparr>originalname = ''cat.mp4'', mimetype = ''video/mp4'', buffer = ''MP4''\<rparr>"

definition paper :: upload_file where
  "paper = \<lparr>originalname = ''cat.pdf'', mimetype = ''application/pdf'', buffer = ''PDF''\<rparr>"

definition script :: upload_file where
  "script = \<lparr>originalname = ''cat.js'', mimetype = ''text/javascript'', buffer = ''JS''\<rparr>"

definition done_handler :: "request \<Rightarrow> world \<Rightarrow> outcome \<times> world" where
  "done_handler req w = (Respond 200 (Msg ''done''), w)"

definition kind_env :: env where
  "kind_env = toy_env\<lparr>upload_stream := (\<lambda>earlier f. Some (''https://media.example/'' @ originalname f))\<rparr>"

definition ada_request :: request where
  "ada_request =
     \<lparr>authorization = Some (''Bearer '' @ ada_token), param_id = ''1'',
      title = Some ''Cats'', description = Some ''On cats'', content = Some ''Cats are fine.'',
      parts = [], user = None, files = []\<rparr>"

definition cats_request :: request where
  "cats_request = ada_request\<lparr>user := Some ada_decoded, files := [photo, clip, paper]\<rparr>"



definition huge :: upload_file where
  "huge = \<lparr>originalname = ''huge.png'', mimetype = ''image/png'',
            buffer = replicate 10485761 (CHR ''x'')\<rparr>"

definition bob_decoded :: jwt_decoded where
  "bob_decoded = \<lparr>d_id = 2, d_email = ''bob@example.org'', d_iat = 1000, d_exp = 87400\<rparr>"

definition bob_request :: request where
  "bob_request = ada_request\<lparr>authorization := Some (''Bearer '' @ bob_token)\<rparr>"

definition lax_env :: env where
  "lax_env = toy_env\<lparr>not_null := (\<lambda>col. False)\<rparr>"


section \<open>Properties of the auth middleware\<close>

lemma split_no_sep: "c \<notin> set s \<Longrightarrow> split c s = [s]"
  by (induction s) auto

lemma split_first_sep: "c \<notin> set a \<Longrightarrow> split c (a @ c # r) = a # split c r"
  by (induction a) auto

lemma token_of_scheme:
  assumes "CHR '' '' \<notin> set scheme" and "CHR '' '' \<notin> set tok"
  shows "token_of (Some (scheme @ CHR '' '' # tok)) = Some tok"
  using assms by (simp add: token_of_def split_first_sep split_no_sep)

lemma token_of_no_space: "CHR '' '' \<notin> set s \<Longrightarrow> token_of (Some s) = None"
  by (simp add: token_of_def split_no_sep)

lemma toy_verify_ada: "toy_verify ada_token ''s3cret'' 1000 = Some ada_decoded"
  by (simp add: toy_verify_def ada_token_def ada_decoded_def startsWith_def)

lemma verifyToken_absent:
  "token_of (authorization req) = None \<or> token_of (authorization req) = Some []
     \<Longrightarrow> verifyToken e req next w = (Respond 401 (Msg ''Token missing''), w)"
  by (auto simp: verifyToken_def)

lemma verifyToken_invalid:
  "token_of (authorization req) = Some token \<Longrightarrow> token \<noteq> []
     \<Longrightarrow> jwt_verify e token (JWT_SECRET e) (now e) = None
     \<Longrightarrow> verifyToken e req next w = (Respond 403 (Msg ''Invalid token''), w)"
  by (simp add: verifyToken_def)

lemma verifyToken_valid:
  "token_of (authorization req) = Some token \<Longrightarrow> token \<noteq> []
     \<Longrightarrow> jwt_verify e token (JWT_SECRET e) (now e) = Some decoded
     \<Longrightarrow> verifyToken e req next w = next (req\<lparr>user := Some decoded\<rparr>) w"
  by (simp add: verifyToken_def)

text \<open>
  C4. On a protected route the middleware answers 401 and runs nothing further when the
  authorization header is absent or carries no token after the scheme word; it answers
  403 and runs nothing further when the token does not verify; and when the token
  verifies it runs the rest of the route on the request with the decoded claims attached
  as \<^verbatim>\<open>req.user\<close>. In the first two cases the answer and the state do not depend on
  the downstream handler \<open>next\<close>.
\<close>

theorem verifyToken_outcomes:
  "(authorization req = None \<or> authorization req = Some ''Bearer''
      \<or> authorization req = Some ''Bearer ''
      \<or> token_of (authorization req) = None \<or> token_of (authorization req) = Some [] \<longrightarrow>
      verifyToken e req next w = (Respond 401 (Msg ''Token missing''), w))
   \<and> (\<forall>token. token_of (authorization req) = Some token \<and> token \<noteq> [] \<and>
        jwt_verify e token (JWT_SECRET e) (now e) = None \<longrightarrow>
      verifyToken e req next w = (Respond 403 (Msg ''Invalid token''), w))
   \<and> (\<forall>token decoded. token_of (authorization req) = Some token \<and> token \<noteq> [] \<and>
        jwt_verify e token (JWT_SECRET e) (now e) = Some decoded \<longrightarrow>
      verifyToken e req next w = next (req\<lparr>user := Some decoded\<rparr>) w)
   \<and> (\<forall>token. CHR '' '' \<notin> set token \<longrightarrow> token_of (Some (''Bearer '' @ token)) = Some token)"
proof (intro conjI allI impI)
  assume "authorization req = None \<or> authorization req = Some ''Bearer''
      \<or> authorization req = Some ''Bearer ''
      \<or> token_of (authorization req) = None \<or> token_of (authorization req) = Some []"
  then have "token_of (authorization req) = None \<or> token_of (authorization req) = Some []"
    by (auto simp: token_of_def)
  then show "verifyToken e req next w = (Respond 401 (Msg ''Token missing''), w)"
    by (rule verifyToken_absent)
next
  fix token
  assume "token_of (authorization req) = Some token \<and> token \<noteq> [] \<and>
        jwt_verify e token (JWT_SECRET e) (now e) = None"
  then show "verifyToken e req next w = (Respond 403 (Msg ''Invalid token''), w)"
    by (simp add: verifyToken_invalid)
next
  fix token decoded
  assume "token_of (authorization req) = Some token \<and> token \<noteq> [] \<and>
        jwt_verify e token (JWT_SECRET e) (now e) = Some decoded"
  then show "verifyToken e req next w = next (req\<lparr>user := Some decoded\<rparr>) w"
    by (simp add: verifyToken_valid)
next
  fix token :: string
  assume "CHR '' '' \<notin> set token"
  then show "token_of (Some (''Bearer '' @ token)) = Some token"
    using token_of_scheme [of "''Bearer''" token] by simp
qed

theorem verifyToken_outcomes_witness:
  "verifyToken toy_env bare_request done_handler toy_world
     = (Respond 401 (Msg ''Token missing''), toy_world)
   \<and> verifyToken toy_env (bare_request\<lparr>authorization := Some (''Bearer '' @ ''forged'')\<rparr>)
        done_handler toy_world
     = (Respond 403 (Msg ''Invalid token''), toy_world)
   \<and> verifyToken toy_env (bare_request\<lparr>authorization := Some (''Bearer '' @ ada_token)\<rparr>)
        done_handler toy_world
     = done_handler
         (bare_request\<lparr>authorization := Some (''Bearer '' @ ada_token), user := Some ada_decoded\<rparr>)
         toy_world"
proof -
  have none: "authorization bare_request = None"
    by (simp add: bare_request_def)
  have forged: "token_of (Some (''Bearer '' @ ''forged'')) = Some ''forged''"
    using verifyToken_outcomes [of bare_request toy_env done_handler toy_world] by simp
  have bad: "jwt_verify toy_env ''forged'' (JWT_SECRET toy_env) (now toy_env) = None"
    by (simp add: toy_env_def toy_verify_def startsWith_def)
  have ada: "token_of (Some (''Bearer '' @ ada_token)) = Some ada_token"
    using verifyToken_outcomes [of bare_request toy_env done_handler toy_world]
    by (simp add: ada_token_def)
  have good: "jwt_verify toy_env ada_token (JWT_SECRET toy_env) (now toy_env) = Some ada_decoded"
    by (simp add: toy_env_def toy_verify_ada)
  have nonempty: "ada_token \<noteq> []"
    by (simp add: ada_token_def)
  show ?thesis
    using none forged bad ada good nonempty
      verifyToken_outcomes [of bare_request toy_env done_handler toy_world]
      verifyToken_outcomes [of "bare_request\<lparr>authorization := Some (''Bearer '' @ ''forged'')\<rparr>"
        toy_env done_handler toy_world]
      verifyToken_outcomes [of "bare_request\<lparr>authorization := Some (''Bearer '' @ ada_token)\<rparr>"
        toy_env done_handler toy_world]
    by simp
qed

text \<open>
  C9. The scheme word is never looked at: whatever stands before the first space, the
  second segment is the token, so a token that verifies is accepted behind any scheme
  (``Basic'' as well as ``Bearer''); and a header without a space has no second segment
  and is answered 401, also when the header's value is itself a token that verifies.
  (A signed token never contains a space and is not empty.)
\<close>

theorem verifyToken_ignores_scheme:
  "(CHR '' '' \<notin> set scheme \<and> CHR '' '' \<notin> set token \<and> token \<noteq> [] \<and>
      jwt_verify e token (JWT_SECRET e) (now e) = Some decoded \<and>
      authorization req = Some (scheme @ '' '' @ token) \<longrightarrow>
      verifyToken e req next w = next (req\<lparr>user := Some decoded\<rparr>) w)
   \<and> (CHR '' '' \<notin> set header \<and> authorization req = Some header \<longrightarrow>
      verifyToken e req next w = (Respond 401 (Msg ''Token missing''), w))"
proof (intro conjI impI)
  assume a: "CHR '' '' \<notin> set scheme \<and> CHR '' '' \<notin> set token \<and> token \<noteq> [] \<and>
      jwt_verify e token (JWT_SECRET e) (now e) = Some decoded \<and>
      authorization req = Some (scheme @ '' '' @ token)"
  then have "token_of (authorization req) = Some token"
    using token_of_scheme [of scheme token] by simp
  with a show "verifyToken e req next w = next (req\<lparr>user := Some decoded\<rparr>) w"
    by (simp add: verifyToken_valid)
next
  assume "CHR '' '' \<notin> set header \<and> authorization req = Some header"
  then have "token_of (authorization req) = None"
    by (simp add: token_of_no_space)
  then show "verifyToken e req next w = (Respond 401 (Msg ''Token missing''), w)"
    by (simp add: verifyToken_absent)
qed

theorem verifyToken_ignores_scheme_witness:
  "verifyToken toy_env (bare_request\<lparr>authorization := Some (''Basic'' @ '' '' @ ada_token)\<rparr>)
        done_handler toy_world
     = done_handler
         (bare_request\<lparr>authorization := Some (''Basic'' @ '' '' @ ada_token),
                        user := Some ada_decoded\<rparr>) toy_world
   \<and> jwt_verify toy_env ada_token (JWT_SECRET toy_env) (now toy_env) = Some ada_decoded
   \<and> verifyToken toy_env (bare_request\<lparr>authorization := Some ada_token\<rparr>)
        done_handler toy_world
     = (Respond 401 (Msg ''Token missing''), toy_world)"
proof -
  have good: "jwt_verify toy_env ada_token (JWT_SECRET toy_env) (now toy_env) = Some ada_decoded"
    by (simp add: toy_env_def toy_verify_ada)
  have plain: "CHR '' '' \<notin> set ''Basic'' \<and> CHR '' '' \<notin> set ada_token \<and> ada_token \<noteq> []"
    by (simp add: ada_token_def)
  show ?thesis
    using good plain
      verifyToken_ignores_scheme [of "''Basic''" ada_token toy_env ada_decoded
        "bare_request\<lparr>authorization := Some (''Basic'' @ '' '' @ ada_token)\<rparr>"
        done_handler toy_world ada_token]
      verifyToken_ignores_scheme [of "''Basic''" ada_token toy_env ada_decoded
        "bare_request\<lparr>authorization := Some ada_token\<rparr>"
        done_handler toy_world ada_token]
    by simp
qed

section \<open>The upload loop\<close>


lemma upload_files_fail:
  "\<exists>i<length fs. upload_stream e (uploads w @ take i fs) (fs ! i) = None
   \<Longrightarrow> \<exists>w'. upload_files e fs atts w = (Inl (Error ''File upload failed''), w')"
proof (induction fs arbitrary: atts w)
  case Nil
  then show ?case by simp
next
  case (Cons f fs)
  show ?case
  proof (cases "upload_stream e (uploads w) f")
    case None
    then show ?thesis by simp
  next
    case (Some u)
    from Cons.prems obtain i where i: "i < length (f # fs)"
      and bad: "upload_stream e (uploads w @ take i (f # fs)) ((f # fs) ! i) = None"
      by blast
    from bad Some obtain j where j: "i = Suc j"
      by (cases i) auto
    with i bad have "\<exists>j<length fs. upload_stream e (uploads (w\<lparr>uploads := uploads w @ [f]\<rparr>) @ take j fs) (fs ! j) = None"
      by auto
    from Cons.IH [OF this] Some show ?thesis by simp
  qed
qed

lemma upload_files_trace:
  "upload_files e fs atts w = (r, w')
   \<Longrightarrow> \<exists>n\<le>length fs. w' = w\<lparr>uploads := uploads w @ take n fs\<rparr>
         \<and> (\<forall>i<n. upload_stream e (uploads w @ take i fs) (fs ! i) = None \<longrightarrow> Suc i = n)
         \<and> (n < length fs \<longrightarrow> 0 < n \<and> upload_stream e (uploads w @ take (n - 1) fs) (fs ! (n - 1)) = None)
         \<and> (isl r \<longleftrightarrow> (0 < n \<and> upload_stream e (uploads w @ take (n - 1) fs) (fs ! (n - 1)) = None))"
proof (induction fs arbitrary: atts w)
  case Nil
  then show ?case by auto
next
  case (Cons f fs)
  show ?case
  proof (cases "upload_stream e (uploads w) f")
    case None
    with Cons.prems have "r = Inl (Error ''File upload failed'')" and "w' = w\<lparr>uploads := uploads w @ [f]\<rparr>"
      by auto
    with None show ?thesis
      by (intro exI [of _ 1]) auto
  next
    case (Some u)
    let ?w1 = "w\<lparr>uploads := uploads w @ [f]\<rparr>"
    from Cons.prems Some
    have "upload_files e fs (atts @ [\<lparr>url = u, type = attachment_type (mimetype f)\<rparr>]) ?w1 = (r, w')"
      by simp
    from Cons.IH [OF this] obtain n where n: "n \<le> length fs"
      and w': "w' = ?w1\<lparr>uploads := uploads ?w1 @ take n fs\<rparr>"
      and stop: "\<forall>i<n. upload_stream e (uploads ?w1 @ take i fs) (fs ! i) = None \<longrightarrow> Suc i = n"
      and early: "n < length fs \<longrightarrow> 0 < n \<and> upload_stream e (uploads ?w1 @ take (n - 1) fs) (fs ! (n - 1)) = None"
      and res: "isl r \<longleftrightarrow> (0 < n \<and> upload_stream e (uploads ?w1 @ take (n - 1) fs) (fs ! (n - 1)) = None)"
      by blast
    have a: "Suc n \<le> length (f # fs)" using n by simp
    have b: "w' = w\<lparr>uploads := uploads w @ take (Suc n) (f # fs)\<rparr>" using w' by simp
    have c: "\<forall>i<Suc n. upload_stream e (uploads w @ take i (f # fs)) ((f # fs) ! i) = None \<longrightarrow> Suc i = Suc n"
    proof (intro allI impI)
      fix i assume i: "i < Suc n" and bad: "upload_stream e (uploads w @ take i (f # fs)) ((f # fs) ! i) = None"
      from bad Some obtain j where j: "i = Suc j" by (cases i) auto
      with i bad stop show "Suc i = Suc n" by auto
    qed
    have d: "Suc n < length (f # fs) \<longrightarrow> 0 < Suc n \<and> upload_stream e (uploads w @ take (Suc n - 1) (f # fs)) ((f # fs) ! (Suc n - 1)) = None"
      using early by (cases n) auto
    have e: "isl r \<longleftrightarrow> (0 < Suc n \<and> upload_stream e (uploads w @ take (Suc n - 1) (f # fs)) ((f # fs) ! (Suc n - 1)) = None)"
      using res Some by (cases n) auto
    from a b c d e show ?thesis by blast
  qed
qed

section \<open>The batch insert binds each attachment to its own placeholders\<close>








section \<open>MIME types and the upload middleware\<close>





lemma multer_array_accepted:
  "multer_array left fs = Inr accepted \<Longrightarrow>
     accepted = fs \<and> length fs \<le> left \<and> (\<forall>f\<in>set fs. fileFilter f \<and> length (buffer f) < fileSize)"
proof (induction fs arbitrary: left accepted)
  case Nil
  then show ?case by simp
next
  case (Cons a fs)
  from Cons.prems have ok: "left \<noteq> 0" "fileFilter a" "length (buffer a) < fileSize"
    by (auto split: if_splits)
  with Cons.prems obtain rest where rest: "multer_array (left - 1) fs = Inr rest"
    and acc: "accepted = a # rest"
    by (auto split: sum.splits)
  from Cons.IH [OF rest] ok acc show ?case by auto
qed

lemma multer_array_at_limit:
  "0 < left \<Longrightarrow> fileFilter f \<Longrightarrow> length (buffer f) = fileSize
     \<Longrightarrow> multer_array left (f # fs) = Inl ''File too large''"
  by simp

section \<open>The transaction of a post creation\<close>


lemma upload_files_frame:
  "upload_files e fs atts w = (r, w') \<Longrightarrow>
     posts w' = posts w \<and> attachments w' = attachments w \<and> users w' = users w
     \<and> pending_posts w' = pending_posts w \<and> pending_attachments w' = pending_attachments w
     \<and> checked_out w' = checked_out w \<and> connections w' = connections w
     \<and> queries w' = queries w \<and> posts_seq w' = posts_seq w
     \<and> attachments_seq w' = attachments_seq w"
  using upload_files_trace [of e fs atts w r w'] by auto

lemma create_post_try_Inl:
  assumes "create_post_try e userId req w = (Inl err, w1)"
  shows "posts w1 = posts w \<and> attachments w1 = attachments w \<and> users w1 = users w
         \<and> checked_out w1 = checked_out w \<and> connections w1 = connections w
         \<and> (\<exists>qs. queries w1 = queries w @ BEGIN # qs \<and> COMMIT \<notin> set qs \<and> ROLLBACK \<notin> set qs)"
  using assms
  by (auto simp: create_post_try_def insert_post_def insert_attachments_def Let_def
        query_BEGIN_def
      split: option.splits sum.splits prod.splits if_splits
      dest!: upload_files_frame)

lemma create_post_try_uploads:
  assumes "create_post_try e userId req w = (r, w1)"
  shows "\<exists>n\<le>length (files req). uploads w1 = uploads w @ take n (files req)
         \<and> (\<forall>i<n. upload_stream e (uploads w @ take i (files req)) (files req ! i) = None
               \<longrightarrow> Suc i = n)
         \<and> (0 < n \<and> n < length (files req) \<longrightarrow>
               upload_stream e (uploads w @ take (n - 1) (files req)) (files req ! (n - 1)) = None)"
proof -
  obtain r0 w0 where ip:
    "insert_post e userId (title req) (description req) (content req) (query_BEGIN w) = (r0, w0)"
    by force
  then have w0: "uploads w0 = uploads w"
    by (auto simp: insert_post_def Let_def query_BEGIN_def split: option.splits)
  have none: "uploads w1 = uploads w \<Longrightarrow> ?thesis"
    by (intro exI [of _ 0]) simp
  show ?thesis
  proof (cases "isl r0 \<or> files req = []")
    case True
    with assms ip w0 have "uploads w1 = uploads w"
      by (auto simp: create_post_try_def query_COMMIT_def split: sum.splits)
    then show ?thesis by (rule none)
  next
    case False
    then obtain row where row: "r0 = Inr row" and fs: "files req \<noteq> []"
      by (cases r0) auto
    obtain r2 w2 where up: "upload_files e (files req) [] w0 = (r2, w2)"
      by force
    from upload_files_trace [OF up] obtain n where n: "n \<le> length (files req)"
      and w2: "w2 = w0\<lparr>uploads := uploads w0 @ take n (files req)\<rparr>"
      and stop: "\<forall>i<n. upload_stream e (uploads w0 @ take i (files req)) (files req ! i) = None
                   \<longrightarrow> Suc i = n"
      and early: "n < length (files req) \<longrightarrow> 0 < n \<and>
                   upload_stream e (uploads w0 @ take (n - 1) (files req)) (files req ! (n - 1)) = None"
      by blast
    from assms ip row fs up have "uploads w1 = uploads w2"
      by (auto simp: create_post_try_def insert_attachments_def Let_def query_COMMIT_def
            split: sum.splits prod.splits option.splits)
    with w2 w0 have "uploads w1 = uploads w @ take n (files req)"
      by simp
    with n stop early w0 show ?thesis
      by (intro exI [of _ n]) simp
  qed
qed

lemma create_post_try_fails:
  assumes "insert_post_error e \<noteq> None
     \<or> (\<exists>i<length (files req).
           upload_stream e (uploads w @ take i (files req)) (files req ! i) = None)
     \<or> (files req \<noteq> [] \<and> insert_attachments_error e \<noteq> None)"
  shows "\<exists>err w1. create_post_try e userId req w = (Inl err, w1)"
proof (cases "insert_post_error e")
  case (Some m)
  then show ?thesis
    by (simp add: create_post_try_def insert_post_def)
next
  case None
  let ?w1 = "(query_BEGIN w)\<lparr>queries := queries (query_BEGIN w) @ [INSERT_POST],
               posts_seq := Suc (posts_seq (query_BEGIN w)),
               pending_posts := pending_posts (query_BEGIN w) @ [new_post e w userId req]\<rparr>"
  have ins: "insert_post e userId (title req) (description req) (content req) (query_BEGIN w)
               = (Inr (new_post e w userId req), ?w1)"
    using None by (simp add: insert_post_def new_post_def query_BEGIN_def Let_def)
  have up_w: "uploads ?w1 = uploads w"
    by (simp add: query_BEGIN_def)
  from assms None consider
      (upload) "\<exists>i<length (files req).
           upload_stream e (uploads w @ take i (files req)) (files req ! i) = None"
    | (atts) "files req \<noteq> []" "insert_attachments_error e \<noteq> None"
    by auto
  then show ?thesis
  proof cases
    case upload
    then have fs: "files req \<noteq> []" by auto
    from upload up_w have "\<exists>i<length (files req).
           upload_stream e (uploads ?w1 @ take i (files req)) (files req ! i) = None"
      by simp
    from upload_files_fail [OF this, of "[]"] obtain w2 where
      "upload_files e (files req) [] ?w1 = (Inl (Error ''File upload failed''), w2)"
      by blast
    with fs show ?thesis
      by (simp add: create_post_try_def ins)
  next
    case atts
    obtain r2 w2 where up: "upload_files e (files req) [] ?w1 = (r2, w2)"
      by force
    from atts obtain m where m: "insert_attachments_error e = Some m"
      by auto
    show ?thesis
    proof (cases r2)
      case (Inl err)
      with atts up show ?thesis
        by (simp add: create_post_try_def ins)
    next
      case (Inr descs)
      with atts up m show ?thesis
        by (simp add: create_post_try_def ins insert_attachments_def)
    qed
  qed
qed

section \<open>Failure, validation and the order of uploads\<close>

lemma create_post_validated:
  "user req = Some u \<Longrightarrow> \<not> falsy (title req) \<Longrightarrow> \<not> falsy (description req)
     \<Longrightarrow> \<not> falsy (content req)
     \<Longrightarrow> create_post e req w =
          (case create_post_try e (d_id u) req (pool_connect w) of
             (Inr created, w1) \<Rightarrow> (Respond 201 created, release w1)
           | (Inl err, w1) \<Rightarrow>
               (Respond 500 (FailureWithStack ''Post creation failed'' err),
                release (query_ROLLBACK w1)))"
  by (simp add: create_post_def)

lemma ada_header: "token_of (Some (''Bearer '' @ ada_token)) = Some ada_token"
  using token_of_scheme [of "''Bearer''" ada_token] by (simp add: ada_token_def)

text \<open>
  C6. A request that reaches the handler with \<^verbatim>\<open>title\<close>,
  \<^verbatim>\<open>description\<close> or \<^verbatim>\<open>content\<close> missing (or empty) is answered 400,
  and the state after it is the state before it: no client was taken from the pool, no
  statement (so no BEGIN) was sent, nothing was uploaded. The same holds for the whole
  route when the token verifies and the upload middleware lets the request through.
\<close>

theorem create_post_missing_fields:
  "(user req = Some u \<and> (falsy (title req) \<or> falsy (description req) \<or> falsy (content req))
      \<longrightarrow> create_post e req w = (Respond 400 (Msg ''Missing required fields''), w))
   \<and> (token_of (authorization req) = Some token \<and> token \<noteq> []
        \<and> jwt_verify e token (JWT_SECRET e) (now e) = Some u
        \<and> multer_array 5 (parts req) = Inr accepted
        \<and> (falsy (title req) \<or> falsy (description req) \<or> falsy (content req))
      \<longrightarrow> post_route e req w = (Respond 400 (Msg ''Missing required fields''), w))
   \<and> (\<forall>v. falsy v \<longleftrightarrow> v = None \<or> v = Some [])"
proof (intro conjI impI allI)
  assume "user req = Some u \<and> (falsy (title req) \<or> falsy (description req) \<or> falsy (content req))"
  then show "create_post e req w = (Respond 400 (Msg ''Missing required fields''), w)"
    by (auto simp: create_post_def)
next
  assume a: "token_of (authorization req) = Some token \<and> token \<noteq> []
        \<and> jwt_verify e token (JWT_SECRET e) (now e) = Some u
        \<and> multer_array 5 (parts req) = Inr accepted
        \<and> (falsy (title req) \<or> falsy (description req) \<or> falsy (content req))"
  then have "post_route e req w = create_post e (req\<lparr>user := Some u, files := accepted\<rparr>) w"
    by (simp add: post_route_def verifyToken_valid upload_array_def)
  with a show "post_route e req w = (Respond 400 (Msg ''Missing required fields''), w)"
    by (auto simp: create_post_def)
next
  fix v show "falsy v \<longleftrightarrow> v = None \<or> v = Some []"
    by (cases v) (auto simp: falsy_def)
qed

theorem create_post_missing_fields_witness:
  "create_post toy_env (ada_request\<lparr>user := Some ada_decoded, title := None\<rparr>) toy_world
     = (Respond 400 (Msg ''Missing required fields''), toy_world)
   \<and> post_route toy_env (ada_request\<lparr>content := Some []\<rparr>) toy_world
     = (Respond 400 (Msg ''Missing required fields''), toy_world)"
proof -
  have tok: "token_of (authorization (ada_request\<lparr>content := Some []\<rparr>)) = Some ada_token \<and> ada_token \<noteq> []"
    using ada_header by (simp add: ada_request_def ada_token_def)
  have good: "jwt_verify toy_env ada_token (JWT_SECRET toy_env) (now toy_env) = Some ada_decoded"
    by (simp add: toy_env_def toy_verify_ada)
  have files: "multer_array 5 (parts (ada_request\<lparr>content := Some []\<rparr>)) = Inr []"
    by (simp add: ada_request_def)
  show ?thesis
    using tok good files
      create_post_missing_fields [of "ada_request\<lparr>user := Some ada_decoded, title := None\<rparr>"
        ada_decoded toy_env toy_world ada_token "[]"]
      create_post_missing_fields [of "ada_request\<lparr>content := Some []\<rparr>"
        ada_decoded toy_env toy_world ada_token "[]"]
    by (simp add: ada_request_def)
qed

text \<open>
  C1. A request that reaches the transaction (\<^verbatim>\<open>req.user\<close> set, the three fields
  present) in which a step fails --- the INSERT of the post, the upload of some file, or
  the INSERT of the attachments --- is answered 500 with ``Post creation failed''. The
  transaction is rolled back: after BEGIN no COMMIT is sent and ROLLBACK is the last
  statement, nothing stays pending, the posts and attachments tables are what they
  were before the request, and the client is back in the pool.
\<close>

theorem create_post_rollback:
  assumes "user req = Some u"
    and "\<not> falsy (title req)" and "\<not> falsy (description req)" and "\<not> falsy (content req)"
    and "insert_post_error e \<noteq> None
         \<or> (\<exists>i<length (files req).
               upload_stream e (uploads w @ take i (files req)) (files req ! i) = None)
         \<or> (files req \<noteq> [] \<and> insert_attachments_error e \<noteq> None)"
  shows "(\<exists>err. fst (create_post e req w)
                  = Respond 500 (FailureWithStack ''Post creation failed'' err))
         \<and> status (fst (create_post e req w)) = Some 500
         \<and> posts (snd (create_post e req w)) = posts w
         \<and> attachments (snd (create_post e req w)) = attachments w
         \<and> pending_posts (snd (create_post e req w)) = []
         \<and> pending_attachments (snd (create_post e req w)) = []
         \<and> (\<exists>qs. queries (snd (create_post e req w)) = queries w @ BEGIN # qs @ [ROLLBACK]
                 \<and> COMMIT \<notin> set qs)
         \<and> checked_out (snd (create_post e req w)) = checked_out w"
proof -
  have up: "uploads (pool_connect w) = uploads w"
    by (simp add: pool_connect_def)
  from assms(5) up have "insert_post_error e \<noteq> None
         \<or> (\<exists>i<length (files req).
               upload_stream e (uploads (pool_connect w) @ take i (files req)) (files req ! i) = None)
         \<or> (files req \<noteq> [] \<and> insert_attachments_error e \<noteq> None)"
    by simp
  from create_post_try_fails [OF this, of "d_id u"] obtain err w1
    where run: "create_post_try e (d_id u) req (pool_connect w) = (Inl err, w1)"
    by blast
  from create_post_try_Inl [OF run] obtain qs where
    frame: "posts w1 = posts w" "attachments w1 = attachments w"
      "checked_out w1 = Suc (checked_out w)"
    and qs: "queries w1 = queries w @ BEGIN # qs" "COMMIT \<notin> set qs"
    by (auto simp: pool_connect_def)
  have out: "create_post e req w
               = (Respond 500 (FailureWithStack ''Post creation failed'' err),
                  release (query_ROLLBACK w1))"
    using assms(1-4) run by (simp add: create_post_validated)
  show ?thesis
    using frame qs
    by (simp add: out status_def release_def query_ROLLBACK_def)
qed

theorem create_post_rollback_witness:
  "status (fst (create_post toy_env cats_request toy_world)) = Some 500
   \<and> posts (snd (create_post toy_env cats_request toy_world)) = [first_post]
   \<and> attachments (snd (create_post toy_env cats_request toy_world)) = []
   \<and> status (fst (create_post (toy_env\<lparr>insert_post_error := Some ''connection lost''\<rparr>)
                      cats_request toy_world)) = Some 500
   \<and> posts (snd (create_post (toy_env\<lparr>insert_post_error := Some ''connection lost''\<rparr>)
                      cats_request toy_world)) = [first_post]"
proof -
  have req: "user cats_request = Some ada_decoded" "\<not> falsy (title cats_request)"
    "\<not> falsy (description cats_request)" "\<not> falsy (content cats_request)"
    by (simp_all add: cats_request_def ada_request_def falsy_def)
  have "upload_stream toy_env (uploads toy_world @ take 1 (files cats_request))
          (files cats_request ! 1) = None"
    by (simp add: cats_request_def toy_env_def clip_def startsWith_def)
  then have clip_fails: "insert_post_error toy_env \<noteq> None
         \<or> (\<exists>i<length (files cats_request).
               upload_stream toy_env (uploads toy_world @ take i (files cats_request))
                 (files cats_request ! i) = None)
         \<or> (files cats_request \<noteq> [] \<and> insert_attachments_error toy_env \<noteq> None)"
    by (intro disjI2 disjI1 exI [of _ 1]) (simp add: cats_request_def)
  have db_fails: "insert_post_error (toy_env\<lparr>insert_post_error := Some ''connection lost''\<rparr>) \<noteq> None
         \<or> (\<exists>i<length (files cats_request).
               upload_stream (toy_env\<lparr>insert_post_error := Some ''connection lost''\<rparr>)
                 (uploads toy_world @ take i (files cats_request))
                 (files cats_request ! i) = None)
         \<or> (files cats_request \<noteq> []
              \<and> insert_attachments_error (toy_env\<lparr>insert_post_error := Some ''connection lost''\<rparr>) \<noteq> None)"
    by simp
  show ?thesis
    using create_post_rollback [OF req clip_fails] create_post_rollback [OF req db_fails]
    by (simp add: toy_world_def)
qed

text \<open>
  C3. The files the media host receives during a request are a prefix of
  \<^verbatim>\<open>req.files\<close>, in the order of the files, each upload made when all earlier
  uploads of the request have been answered; the only upload that can have failed is the
  last one made. So once an upload fails, no file behind it is sent.
\<close>

theorem uploads_in_order_until_failure:
  "(\<exists>n\<le>length (files req).
      uploads (snd (create_post e req w)) = uploads w @ take n (files req)
      \<and> (\<forall>i<n. upload_stream e (uploads w @ take i (files req)) (files req ! i) = None
            \<longrightarrow> Suc i = n))
   \<and> (\<forall>i<length (files req).
        upload_stream e (uploads w @ take i (files req)) (files req ! i) = None
        \<longrightarrow> (\<exists>n\<le>Suc i. uploads (snd (create_post e req w)) = uploads w @ take n (files req)))"
proof -
  have "\<exists>n\<le>length (files req).
      uploads (snd (create_post e req w)) = uploads w @ take n (files req)
      \<and> (\<forall>i<n. upload_stream e (uploads w @ take i (files req)) (files req ! i) = None
            \<longrightarrow> Suc i = n)"
  proof (cases "\<exists>u. user req = Some u \<and> \<not> falsy (title req) \<and> \<not> falsy (description req)
                    \<and> \<not> falsy (content req)")
    case False
    then have "snd (create_post e req w) = w"
      by (auto simp: create_post_def split: option.splits)
    then show ?thesis
      by (intro exI [of _ 0]) simp
  next
    case True
    then obtain u where u: "user req = Some u" "\<not> falsy (title req)"
      "\<not> falsy (description req)" "\<not> falsy (content req)"
      by blast
    obtain r w1 where run: "create_post_try e (d_id u) req (pool_connect w) = (r, w1)"
      by force
    from create_post_try_uploads [OF run] obtain n where n: "n \<le> length (files req)"
      and sent: "uploads w1 = uploads (pool_connect w) @ take n (files req)"
      and stop: "\<forall>i<n. upload_stream e (uploads (pool_connect w) @ take i (files req))
                         (files req ! i) = None \<longrightarrow> Suc i = n"
      by blast
    have "uploads (snd (create_post e req w)) = uploads w1"
      using u run
      by (cases r) (simp_all add: create_post_validated release_def query_ROLLBACK_def)
    with n sent stop show ?thesis
      by (intro exI [of _ n]) (simp add: pool_connect_def)
  qed
  then obtain n where n: "n \<le> length (files req)"
    and sent: "uploads (snd (create_post e req w)) = uploads w @ take n (files req)"
    and stop: "\<forall>i<n. upload_stream e (uploads w @ take i (files req)) (files req ! i) = None
                  \<longrightarrow> Suc i = n"
    by blast
  have "\<forall>i<length (files req).
        upload_stream e (uploads w @ take i (files req)) (files req ! i) = None
        \<longrightarrow> (\<exists>n\<le>Suc i. uploads (snd (create_post e req w)) = uploads w @ take n (files req))"
  proof (intro allI impI)
    fix i
    assume "i < length (files req)"
      and bad: "upload_stream e (uploads w @ take i (files req)) (files req ! i) = None"
    have "n \<le> Suc i"
    proof (cases "i < n")
      case True
      with stop bad show ?thesis by auto
    next
      case False
      then show ?thesis by simp
    qed
    with sent show "\<exists>n\<le>Suc i. uploads (snd (create_post e req w)) = uploads w @ take n (files req)"
      by blast
  qed
  with n sent stop show ?thesis
    by blast
qed

theorem uploads_in_order_until_failure_witness:
  "upload_stream toy_env (uploads toy_world @ take 1 (files cats_request))
     (files cats_request ! 1) = None
   \<and> (\<exists>n\<le>2. uploads (snd (create_post toy_env cats_request toy_world))
                = uploads toy_world @ take n [photo, clip, paper])
   \<and> paper \<notin> set (uploads (snd (create_post toy_env cats_request toy_world)))
   \<and> uploads (snd (create_post toy_env cats_request toy_world)) = [photo, clip]"
proof -
  have run: "uploads (snd (create_post toy_env cats_request toy_world)) = [photo, clip]"
    by (simp add: create_post_def create_post_try_def cats_request_def ada_request_def falsy_def
          ada_decoded_def pool_connect_def query_BEGIN_def insert_post_def toy_env_def Let_def
          photo_def clip_def paper_def startsWith_def release_def query_ROLLBACK_def
          toy_world_def)
  have bad: "upload_stream toy_env (uploads toy_world @ take 1 (files cats_request))
          (files cats_request ! 1) = None"
    by (simp add: cats_request_def toy_env_def clip_def startsWith_def)
  have len: "1 < length (files cats_request)"
    by (simp add: cats_request_def)
  from uploads_in_order_until_failure [of cats_request toy_env toy_world] bad len
  have "\<exists>n\<le>Suc 1. uploads (snd (create_post toy_env cats_request toy_world))
                = uploads toy_world @ take n (files cats_request)"
    by blast
  then obtain n where n1: "n \<le> Suc 1"
    and sent1: "uploads (snd (create_post toy_env cats_request toy_world))
                = uploads toy_world @ take n (files cats_request)"
    by blast
  have fs: "files cats_request = [photo, clip, paper]"
    by (simp add: cats_request_def)
  from n1 have n: "n \<le> 2"
    by simp
  from sent1 have sent: "uploads (snd (create_post toy_env cats_request toy_world))
                = uploads toy_world @ take n [photo, clip, paper]"
    by (simp only: fs)
  from n have "n = 0 \<or> n = 1 \<or> n = 2"
    by auto
  with sent have "paper \<notin> set (uploads (snd (create_post toy_env cats_request toy_world)))"
    by (auto simp: toy_world_def paper_def photo_def clip_def)
  with bad n sent run show ?thesis
    by blast
qed

section \<open>A successful creation, and a refused file\<close>




lemma toy_accepts_ada:
  "jwt_verify kind_env ada_token (JWT_SECRET kind_env) (now kind_env) = Some ada_decoded"
  "jwt_verify toy_env ada_token (JWT_SECRET toy_env) (now toy_env) = Some ada_decoded"
  by (simp_all add: kind_env_def toy_env_def toy_verify_ada)

lemma small_files:
  "fileFilter photo \<and> length (buffer photo) < fileSize"
  "fileFilter clip \<and> length (buffer clip) < fileSize"
  "fileFilter paper \<and> length (buffer paper) < fileSize"
  by (simp_all add: fileFilter_def startsWith_def photo_def clip_def paper_def fileSize_def)


lemma multer_array_refuses:
  "\<exists>f\<in>set fs. \<not> fileFilter f \<or> fileSize \<le> length (buffer f)
     \<Longrightarrow> \<exists>err. multer_array left fs = Inl err
           \<and> err \<in> {''Unexpected field'', ''Invalid file type'', ''File too large''}"
proof (induction fs arbitrary: left)
  case Nil
  then show ?case by simp
next
  case (Cons a fs)
  show ?case
  proof (cases "left = 0 \<or> \<not> fileFilter a \<or> fileSize \<le> length (buffer a)")
    case True
    then show ?thesis by auto
  next
    case False
    with Cons.prems have "\<exists>f\<in>set fs. \<not> fileFilter f \<or> fileSize \<le> length (buffer f)"
      by auto
    from Cons.IH [OF this, of "left - 1"] obtain err where "multer_array (left - 1) fs = Inl err"
      and "err \<in> {''Unexpected field'', ''Invalid file type'', ''File too large''}"
      by blast
    with False show ?thesis by simp
  qed
qed

text \<open>
  C5, as amended. A request with a file whose MIME type starts with none of
  \<^verbatim>\<open>image/\<close>, \<^verbatim>\<open>video/\<close>, \<^verbatim>\<open>application/pdf\<close>, or with a file of more
  than 10 MB, never reaches the handler, and the state after it is the state before it:
  no client taken from the pool, no statement sent, nothing uploaded. The router sets no
  status for the refusal: when the token verifies, the upload middleware passes its error
  to \<^verbatim>\<open>next(err)\<close> (``Invalid file type'', ``File too large'' or ``Unexpected
  field''); otherwise the auth middleware has answered 401 or 403 before.
\<close>

theorem bad_file_never_reaches_handler:
  assumes "\<exists>f\<in>set (parts req).
             (\<not> startsWith (mimetype f) ''image/'' \<and> \<not> startsWith (mimetype f) ''video/''
                \<and> \<not> startsWith (mimetype f) ''application/pdf'')
             \<or> 10 * 1024 * 1024 < length (buffer f)"
  shows "snd (post_route e req w) = w
     \<and> (fst (post_route e req w) = Respond 401 (Msg ''Token missing'')
          \<or> fst (post_route e req w) = Respond 403 (Msg ''Invalid token'')
          \<or> fst (post_route e req w) = NextError ''Unexpected field''
          \<or> fst (post_route e req w) = NextError ''Invalid file type''
          \<or> fst (post_route e req w) = NextError ''File too large'')
     \<and> (\<forall>token u. token_of (authorization req) = Some token \<and> token \<noteq> []
            \<and> jwt_verify e token (JWT_SECRET e) (now e) = Some u
          \<longrightarrow> (\<exists>err. fst (post_route e req w) = NextError err)
              \<and> status (fst (post_route e req w)) = None)"
proof -
  from assms obtain f where f: "f \<in> set (parts req)"
    and bad: "(\<not> startsWith (mimetype f) ''image/'' \<and> \<not> startsWith (mimetype f) ''video/''
                \<and> \<not> startsWith (mimetype f) ''application/pdf'')
             \<or> 10 * 1024 * 1024 < length (buffer f)"
    by blast
  from bad have "\<not> fileFilter f \<or> fileSize \<le> length (buffer f)"
    by (auto simp: fileFilter_def fileSize_def)
  with f have "\<exists>f\<in>set (parts req). \<not> fileFilter f \<or> fileSize \<le> length (buffer f)"
    by blast
  from multer_array_refuses [OF this, of 5] obtain err where
    refused: "multer_array 5 (parts req) = Inl err"
    and err: "err \<in> {''Unexpected field'', ''Invalid file type'', ''File too large''}"
    by blast
  show ?thesis
  proof (cases "token_of (authorization req)")
    case None
    then show ?thesis
      by (simp add: post_route_def verifyToken_def)
  next
    case (Some token)
    show ?thesis
    proof (cases "token = []")
      case True
      with Some show ?thesis
        by (simp add: post_route_def verifyToken_def)
    next
      case False
      show ?thesis
      proof (cases "jwt_verify e token (JWT_SECRET e) (now e)")
        case None
        with Some False show ?thesis
          by (simp add: post_route_def verifyToken_def)
      next
        case (Some u)
        with \<open>token_of (authorization req) = Some token\<close> False
        have "post_route e req w = (NextError err, w)"
          by (simp add: post_route_def verifyToken_def upload_array_def refused)
        with err show ?thesis
          by (auto simp: status_def)
      qed
    qed
  qed
qed

theorem bad_file_never_reaches_handler_witness:
  "post_route toy_env (ada_request\<lparr>parts := [photo, huge]\<rparr>) toy_world
     = (NextError ''File too large'', toy_world)
   \<and> status (fst (post_route toy_env (ada_request\<lparr>parts := [photo, huge]\<rparr>) toy_world)) = None"
proof -
  have big: "\<exists>f\<in>set (parts (ada_request\<lparr>parts := [photo, huge]\<rparr>)).
             (\<not> startsWith (mimetype f) ''image/'' \<and> \<not> startsWith (mimetype f) ''video/''
                \<and> \<not> startsWith (mimetype f) ''application/pdf'')
             \<or> 10 * 1024 * 1024 < length (buffer f)"
    by (simp add: huge_def)
  have auth: "token_of (authorization (ada_request\<lparr>parts := [photo, huge]\<rparr>)) = Some ada_token"
    "ada_token \<noteq> []"
    using ada_header by (simp_all add: ada_request_def ada_token_def)
  have eval: "multer_array 5 [photo, huge] = Inl ''File too large''"
    using small_files(1) by (simp add: huge_def fileFilter_def startsWith_def fileSize_def)
  note rejected = bad_file_never_reaches_handler [OF big, of toy_env toy_world]
  from rejected
  have same: "snd (post_route toy_env (ada_request\<lparr>parts := [photo, huge]\<rparr>) toy_world) = toy_world"
    by blast
  from rejected auth toy_accepts_ada(2)
  have unanswered:
    "status (fst (post_route toy_env (ada_request\<lparr>parts := [photo, huge]\<rparr>) toy_world)) = None"
    by blast
  have "fst (post_route toy_env (ada_request\<lparr>parts := [photo, huge]\<rparr>) toy_world)
          = NextError ''File too large''"
    using auth toy_accepts_ada(2) eval
    by (simp add: post_route_def verifyToken_def upload_array_def)
  with same unanswered show ?thesis
    by (simp add: prod_eq_iff)
qed

text \<open>
  C5 as stated promises status 400. An authenticated request with one JavaScript file is
  not answered 400 by the router: it ends in \<^verbatim>\<open>next(err)\<close>.
\<close>

theorem bad_file_is_not_answered_400:
  "fst (post_route toy_env (ada_request\<lparr>parts := [script]\<rparr>) toy_world)
     = NextError ''Invalid file type''
   \<and> status (fst (post_route toy_env (ada_request\<lparr>parts := [script]\<rparr>) toy_world)) \<noteq> Some 400"
proof -
  have auth: "token_of (authorization (ada_request\<lparr>parts := [script]\<rparr>)) = Some ada_token"
    using ada_header by (simp add: ada_request_def)
  have eval: "multer_array 5 [script] = Inl ''Invalid file type''"
    by (simp add: script_def fileFilter_def startsWith_def)
  have "fst (post_route toy_env (ada_request\<lparr>parts := [script]\<rparr>) toy_world)
          = NextError ''Invalid file type''"
    using auth toy_accepts_ada(2) eval
    by (simp add: post_route_def verifyToken_def upload_array_def ada_token_def)
  then show ?thesis
    by (simp add: status_def)
qed

section \<open>Ownership: updating and deleting\<close>

lemma put_route_passes:
  "token_of (authorization req) = Some token \<Longrightarrow> token \<noteq> []
     \<Longrightarrow> jwt_verify e token (JWT_SECRET e) (now e) = Some u
     \<Longrightarrow> put_route e req w = update_post e (req\<lparr>user := Some u\<rparr>) w"
  by (simp add: put_route_def verifyToken_valid)

lemma delete_route_passes:
  "token_of (authorization req) = Some token \<Longrightarrow> token \<noteq> []
     \<Longrightarrow> jwt_verify e token (JWT_SECRET e) (now e) = Some u
     \<Longrightarrow> delete_route e req w = delete_post e (req\<lparr>user := Some u\<rparr>) w"
  by (simp add: delete_route_def verifyToken_valid)

lemma update_post_no_row:
  assumes "user req = Some u" and "update_post_error e = None"
    and "pg_integer e (param_id req) = Some k"
    and "\<forall>p\<in>set (posts w). int (p_id p) = k \<longrightarrow> p_user_id p \<noteq> d_id u"
  shows "update_post e req w
           = (Respond 403 (Msg ''Unauthorized or not found''),
              w\<lparr>queries := queries w @ [UPDATE_POST]\<rparr>)"
proof -
  from assms(4) have "filter (\<lambda>p. int (p_id p) = k \<and> p_user_id p = d_id u) (posts w) = []"
    by (auto simp: filter_empty_conv)
  with assms(1-3) show ?thesis
    by (simp add: update_post_def query_UPDATE_def)
qed

lemma delete_post_no_row:
  assumes "user req = Some u" and "delete_post_error e = None"
    and "pg_integer e (param_id req) = Some k"
    and "\<forall>p\<in>set (posts w). int (p_id p) = k \<longrightarrow> p_user_id p \<noteq> d_id u"
  shows "fst (delete_post e req w) = Respond 403 (Msg ''Unauthorized or not found'')"
    and "posts (snd (delete_post e req w)) = posts w"
    and "attachments (snd (delete_post e req w)) = attachments w"
proof -
  from assms(4) have empty: "filter (\<lambda>p. int (p_id p) = k \<and> p_user_id p = d_id u) (posts w) = []"
    by (auto simp: filter_empty_conv)
  from assms(4)
  have same: "filter (\<lambda>p. \<not> (int (p_id p) = k \<and> p_user_id p = d_id u)) (posts w) = posts w"
    by (auto simp: filter_id_conv)
  show "fst (delete_post e req w) = Respond 403 (Msg ''Unauthorized or not found'')"
    using assms(1-3) empty by (simp add: delete_post_def query_DELETE_def)
  show "posts (snd (delete_post e req w)) = posts w"
    using assms(1-3) empty same by (simp add: delete_post_def query_DELETE_def)
  show "attachments (snd (delete_post e req w)) = attachments w"
    using assms(1-3) empty by (simp add: delete_post_def query_DELETE_def)
qed

lemma update_post_rejected:
  assumes "user req = Some u"
  shows "update_post_error e = Some m \<Longrightarrow>
           update_post e req w
             = (Respond 500 (Failure ''Update failed'' (DatabaseError m)),
                w\<lparr>queries := queries w @ [UPDATE_POST]\<rparr>)"
    and "update_post_error e = None \<Longrightarrow> pg_integer e (param_id req) = None \<Longrightarrow>
           update_post e req w
             = (Respond 500 (Failure ''Update failed'' (InvalidInteger (param_id req))),
                w\<lparr>queries := queries w @ [UPDATE_POST]\<rparr>)"
  using assms by (simp_all add: update_post_def query_UPDATE_def)

lemma delete_post_rejected:
  assumes "user req = Some u"
  shows "delete_post_error e = Some m \<Longrightarrow>
           delete_post e req w
             = (Respond 500 (Failure ''Delete failed'' (DatabaseError m)),
                w\<lparr>queries := queries w @ [DELETE_POST]\<rparr>)"
    and "delete_post_error e = None \<Longrightarrow> pg_integer e (param_id req) = None \<Longrightarrow>
           delete_post e req w
             = (Respond 500 (Failure ''Delete failed'' (InvalidInteger (param_id req))),
                w\<lparr>queries := queries w @ [DELETE_POST]\<rparr>)"
  using assms by (simp_all add: delete_post_def query_DELETE_def)

lemma delete_post_done:
  assumes "user req = Some u" and "fst (delete_post e req w) = Respond 200 b"
  shows "\<exists>k. pg_integer e (param_id req) = Some k \<and> delete_post_error e = None
           \<and> posts (snd (delete_post e req w))
               = filter (\<lambda>p. \<not> (int (p_id p) = k \<and> p_user_id p = d_id u)) (posts w)
           \<and> (\<exists>p\<in>set (posts w). int (p_id p) = k \<and> p_user_id p = d_id u)"
proof -
  have ok: "delete_post_error e = None"
  proof (cases "delete_post_error e")
    case (Some m)
    with assms show ?thesis
      by (simp add: delete_post_def query_DELETE_def)
  qed simp
  obtain k where k: "pg_integer e (param_id req) = Some k"
  proof (cases "pg_integer e (param_id req)")
    case None
    with assms ok show ?thesis
      by (simp add: delete_post_def query_DELETE_def)
  qed simp
  have gone: "posts (snd (delete_post e req w))
               = filter (\<lambda>p. \<not> (int (p_id p) = k \<and> p_user_id p = d_id u)) (posts w)"
    using assms(1) k ok
    by (simp add: delete_post_def query_DELETE_def Let_def split: list.splits)
  have "filter (\<lambda>p. int (p_id p) = k \<and> p_user_id p = d_id u) (posts w) \<noteq> []"
    using assms k ok
    by (auto simp: delete_post_def query_DELETE_def Let_def split: list.splits)
  then have "\<exists>p\<in>set (posts w). int (p_id p) = k \<and> p_user_id p = d_id u"
    by (auto simp: filter_empty_conv)
  with k ok gone show ?thesis
    by blast
qed

text \<open>
  C7, as amended. An authenticated PUT or DELETE whose id the server reads as a number,
  for which no row is owned by the requesting user (no post has the id, or the post is
  someone else's), is answered 403 when the server executes the statement. An id the
  server cannot read (not a number, out of the column's range) is answered 500, as is a
  statement the server does not execute. In all these cases the posts and attachments
  tables stay as they were. Consequently, after a DELETE that was answered 200, a second
  DELETE and a PUT with the same token and id are answered 403; and since the id is the
  primary key of \<open>posts\<close>, so are a DELETE and a PUT of the same id under any other
  valid token.
\<close>

theorem not_owner_forbidden:
  assumes auth: "token_of (authorization req) = Some token" "token \<noteq> []"
      "jwt_verify e token (JWT_SECRET e) (now e) = Some u"
  shows "(\<forall>k. pg_integer e (param_id req) = Some k
            \<and> (\<forall>p\<in>set (posts w). int (p_id p) = k \<longrightarrow> p_user_id p \<noteq> d_id u) \<longrightarrow>
            (update_post_error e = None \<longrightarrow>
               fst (put_route e req w) = Respond 403 (Msg ''Unauthorized or not found''))
            \<and> (delete_post_error e = None \<longrightarrow>
               fst (delete_route e req w) = Respond 403 (Msg ''Unauthorized or not found''))
            \<and> posts (snd (put_route e req w)) = posts w
            \<and> attachments (snd (put_route e req w)) = attachments w
            \<and> posts (snd (delete_route e req w)) = posts w
            \<and> attachments (snd (delete_route e req w)) = attachments w)
     \<and> (pg_integer e (param_id req) = None \<longrightarrow>
            (update_post_error e = None \<longrightarrow>
               fst (put_route e req w)
                 = Respond 500 (Failure ''Update failed'' (InvalidInteger (param_id req))))
            \<and> (delete_post_error e = None \<longrightarrow>
               fst (delete_route e req w)
                 = Respond 500 (Failure ''Delete failed'' (InvalidInteger (param_id req))))
            \<and> posts (snd (put_route e req w)) = posts w
            \<and> attachments (snd (put_route e req w)) = attachments w
            \<and> posts (snd (delete_route e req w)) = posts w
            \<and> attachments (snd (delete_route e req w)) = attachments w)
     \<and> (\<forall>m. update_post_error e = Some m \<longrightarrow>
            fst (put_route e req w) = Respond 500 (Failure ''Update failed'' (DatabaseError m))
            \<and> posts (snd (put_route e req w)) = posts w
            \<and> attachments (snd (put_route e req w)) = attachments w)
     \<and> (\<forall>m. delete_post_error e = Some m \<longrightarrow>
            fst (delete_route e req w) = Respond 500 (Failure ''Delete failed'' (DatabaseError m))
            \<and> posts (snd (delete_route e req w)) = posts w
            \<and> attachments (snd (delete_route e req w)) = attachments w)
     \<and> (\<forall>b again. fst (delete_route e req w) = Respond 200 b
            \<and> authorization again = authorization req \<and> param_id again = param_id req \<longrightarrow>
            fst (delete_route e again (snd (delete_route e req w)))
              = Respond 403 (Msg ''Unauthorized or not found'')
            \<and> (update_post_error e = None \<longrightarrow>
                 fst (put_route e again (snd (delete_route e req w)))
                   = Respond 403 (Msg ''Unauthorized or not found'')))
     \<and> (\<forall>b other token' u'. fst (delete_route e req w) = Respond 200 b
            \<and> distinct (map p_id (posts w))
            \<and> token_of (authorization other) = Some token' \<and> token' \<noteq> []
            \<and> jwt_verify e token' (JWT_SECRET e) (now e) = Some u'
            \<and> param_id other = param_id req \<longrightarrow>
            fst (delete_route e other (snd (delete_route e req w)))
              = Respond 403 (Msg ''Unauthorized or not found'')
            \<and> (update_post_error e = None \<longrightarrow>
                 fst (put_route e other (snd (delete_route e req w)))
                   = Respond 403 (Msg ''Unauthorized or not found'')))"
proof -
  let ?req = "req\<lparr>user := Some u\<rparr>"
  have put: "put_route e req w = update_post e ?req w"
    using auth by (rule put_route_passes)
  have del: "delete_route e req w = delete_post e ?req w"
    using auth by (rule delete_route_passes)
  have u: "user ?req = Some u"
    by simp
  have put_frame: "posts (snd (put_route e req w)) = posts w
        \<and> attachments (snd (put_route e req w)) = attachments w"
    if "\<forall>k. pg_integer e (param_id req) = Some k \<longrightarrow>
          (\<forall>p\<in>set (posts w). int (p_id p) = k \<longrightarrow> p_user_id p \<noteq> d_id u)"
  proof (cases "update_post_error e")
    case (Some m)
    from update_post_rejected(1) [OF u this] show ?thesis
      by (simp add: put)
  next
    case None
    show ?thesis
    proof (cases "pg_integer e (param_id req)")
      case unread: None
      then have "pg_integer e (param_id ?req) = None"
        by simp
      from update_post_rejected(2) [OF u None this] show ?thesis
        by (simp add: put)
    next
      case (Some k)
      with that have none: "\<forall>p\<in>set (posts w). int (p_id p) = k \<longrightarrow> p_user_id p \<noteq> d_id u"
        by blast
      from Some have "pg_integer e (param_id ?req) = Some k"
        by simp
      from update_post_no_row [OF u None this none] show ?thesis
        by (simp add: put)
    qed
  qed
  have del_frame: "posts (snd (delete_route e req w)) = posts w
        \<and> attachments (snd (delete_route e req w)) = attachments w"
    if "\<forall>k. pg_integer e (param_id req) = Some k \<longrightarrow>
          (\<forall>p\<in>set (posts w). int (p_id p) = k \<longrightarrow> p_user_id p \<noteq> d_id u)"
  proof (cases "delete_post_error e")
    case (Some m)
    from delete_post_rejected(1) [OF u this] show ?thesis
      by (simp add: del)
  next
    case None
    show ?thesis
    proof (cases "pg_integer e (param_id req)")
      case unread: None
      then have "pg_integer e (param_id ?req) = None"
        by simp
      from delete_post_rejected(2) [OF u None this] show ?thesis
        by (simp add: del)
    next
      case (Some k)
      with that have none: "\<forall>p\<in>set (posts w). int (p_id p) = k \<longrightarrow> p_user_id p \<noteq> d_id u"
        by blast
      from Some have "pg_integer e (param_id ?req) = Some k"
        by simp
      from delete_post_no_row(2,3) [OF u None this none] show ?thesis
        by (simp add: del)
    qed
  qed
  have part1: "\<forall>k. pg_integer e (param_id req) = Some k
            \<and> (\<forall>p\<in>set (posts w). int (p_id p) = k \<longrightarrow> p_user_id p \<noteq> d_id u) \<longrightarrow>
            (update_post_error e = None \<longrightarrow>
               fst (put_route e req w) = Respond 403 (Msg ''Unauthorized or not found''))
            \<and> (delete_post_error e = None \<longrightarrow>
               fst (delete_route e req w) = Respond 403 (Msg ''Unauthorized or not found''))
            \<and> posts (snd (put_route e req w)) = posts w
            \<and> attachments (snd (put_route e req w)) = attachments w
            \<and> posts (snd (delete_route e req w)) = posts w
            \<and> attachments (snd (delete_route e req w)) = attachments w"
  proof (intro allI impI)
    fix k
    assume a: "pg_integer e (param_id req) = Some k
            \<and> (\<forall>p\<in>set (posts w). int (p_id p) = k \<longrightarrow> p_user_id p \<noteq> d_id u)"
    then have k: "pg_integer e (param_id ?req) = Some k"
      and none: "\<forall>p\<in>set (posts w). int (p_id p) = k \<longrightarrow> p_user_id p \<noteq> d_id u"
      by simp_all
    from a have cond: "\<forall>k. pg_integer e (param_id req) = Some k \<longrightarrow>
          (\<forall>p\<in>set (posts w). int (p_id p) = k \<longrightarrow> p_user_id p \<noteq> d_id u)"
      by simp
    have upd: "update_post_error e = None \<longrightarrow>
               fst (put_route e req w) = Respond 403 (Msg ''Unauthorized or not found'')"
      using update_post_no_row [OF u _ k none] by (simp add: put)
    have dlt: "delete_post_error e = None \<longrightarrow>
               fst (delete_route e req w) = Respond 403 (Msg ''Unauthorized or not found'')"
      using delete_post_no_row(1) [OF u _ k none] by (simp add: del)
    from upd dlt put_frame [OF cond] del_frame [OF cond]
    show "(update_post_error e = None \<longrightarrow>
               fst (put_route e req w) = Respond 403 (Msg ''Unauthorized or not found''))
            \<and> (delete_post_error e = None \<longrightarrow>
               fst (delete_route e req w) = Respond 403 (Msg ''Unauthorized or not found''))
            \<and> posts (snd (put_route e req w)) = posts w
            \<and> attachments (snd (put_route e req w)) = attachments w
            \<and> posts (snd (delete_route e req w)) = posts w
            \<and> attachments (snd (delete_route e req w)) = attachments w"
      by blast
  qed
  have part2: "pg_integer e (param_id req) = None \<longrightarrow>
            (update_post_error e = None \<longrightarrow>
               fst (put_route e req w)
                 = Respond 500 (Failure ''Update failed'' (InvalidInteger (param_id req))))
            \<and> (delete_post_error e = None \<longrightarrow>
               fst (delete_route e req w)
                 = Respond 500 (Failure ''Delete failed'' (InvalidInteger (param_id req))))
            \<and> posts (snd (put_route e req w)) = posts w
            \<and> attachments (snd (put_route e req w)) = attachments w
            \<and> posts (snd (delete_route e req w)) = posts w
            \<and> attachments (snd (delete_route e req w)) = attachments w"
  proof
    assume unread: "pg_integer e (param_id req) = None"
    then have k: "pg_integer e (param_id ?req) = None"
      by simp
    from unread have cond: "\<forall>k. pg_integer e (param_id req) = Some k \<longrightarrow>
          (\<forall>p\<in>set (posts w). int (p_id p) = k \<longrightarrow> p_user_id p \<noteq> d_id u)"
      by simp
    have upd: "update_post_error e = None \<longrightarrow>
               fst (put_route e req w)
                 = Respond 500 (Failure ''Update failed'' (InvalidInteger (param_id req)))"
      using update_post_rejected(2) [OF u _ k] by (simp add: put)
    have dlt: "delete_post_error e = None \<longrightarrow>
               fst (delete_route e req w)
                 = Respond 500 (Failure ''Delete failed'' (InvalidInteger (param_id req)))"
      using delete_post_rejected(2) [OF u _ k] by (simp add: del)
    from upd dlt put_frame [OF cond] del_frame [OF cond]
    show "(update_post_error e = None \<longrightarrow>
               fst (put_route e req w)
                 = Respond 500 (Failure ''Update failed'' (InvalidInteger (param_id req))))
            \<and> (delete_post_error e = None \<longrightarrow>
               fst (delete_route e req w)
                 = Respond 500 (Failure ''Delete failed'' (InvalidInteger (param_id req))))
            \<and> posts (snd (put_route e req w)) = posts w
            \<and> attachments (snd (put_route e req w)) = attachments w
            \<and> posts (snd (delete_route e req w)) = posts w
            \<and> attachments (snd (delete_route e req w)) = attachments w"
      by blast
  qed
  have part3: "\<forall>m. update_post_error e = Some m \<longrightarrow>
            fst (put_route e req w) = Respond 500 (Failure ''Update failed'' (DatabaseError m))
            \<and> posts (snd (put_route e req w)) = posts w
            \<and> attachments (snd (put_route e req w)) = attachments w"
    using update_post_rejected(1) [OF u] by (simp add: put)
  have part4: "\<forall>m. delete_post_error e = Some m \<longrightarrow>
            fst (delete_route e req w) = Respond 500 (Failure ''Delete failed'' (DatabaseError m))
            \<and> posts (snd (delete_route e req w)) = posts w
            \<and> attachments (snd (delete_route e req w)) = attachments w"
    using delete_post_rejected(1) [OF u] by (simp add: del)
  have part5: "\<forall>b again. fst (delete_route e req w) = Respond 200 b
            \<and> authorization again = authorization req \<and> param_id again = param_id req \<longrightarrow>
            fst (delete_route e again (snd (delete_route e req w)))
              = Respond 403 (Msg ''Unauthorized or not found'')
            \<and> (update_post_error e = None \<longrightarrow>
                 fst (put_route e again (snd (delete_route e req w)))
                   = Respond 403 (Msg ''Unauthorized or not found''))"
  proof (intro allI impI)
    fix b and again :: request
    assume a: "fst (delete_route e req w) = Respond 200 b
            \<and> authorization again = authorization req \<and> param_id again = param_id req"
    let ?w1 = "snd (delete_route e req w)"
    let ?again = "again\<lparr>user := Some u\<rparr>"
    from a have deleted: "fst (delete_post e ?req w) = Respond 200 b"
      by (simp add: del)
    from delete_post_done [OF u deleted] obtain k
      where k: "pg_integer e (param_id req) = Some k" and ok: "delete_post_error e = None"
        and left: "posts ?w1 = filter (\<lambda>p. \<not> (int (p_id p) = k \<and> p_user_id p = d_id u)) (posts w)"
      by (auto simp: del)
    from left have gone: "\<forall>p\<in>set (posts ?w1). int (p_id p) = k \<longrightarrow> p_user_id p \<noteq> d_id u"
      by auto
    from k a have k': "pg_integer e (param_id ?again) = Some k"
      by simp
    have auth': "token_of (authorization again) = Some token"
      using a auth(1) by simp
    have u': "user ?again = Some u"
      by simp
    have dlt: "fst (delete_route e again ?w1) = Respond 403 (Msg ''Unauthorized or not found'')"
      using delete_post_no_row(1) [OF u' ok k' gone]
      by (simp add: delete_route_passes [OF auth' auth(2,3)])
    have upd: "update_post_error e = None \<longrightarrow>
                 fst (put_route e again ?w1) = Respond 403 (Msg ''Unauthorized or not found'')"
      using update_post_no_row [OF u' _ k' gone]
      by (simp add: put_route_passes [OF auth' auth(2,3)])
    from dlt upd
    show "fst (delete_route e again ?w1) = Respond 403 (Msg ''Unauthorized or not found'')
        \<and> (update_post_error e = None \<longrightarrow>
             fst (put_route e again ?w1) = Respond 403 (Msg ''Unauthorized or not found''))"
      by blast
  qed
  have part6: "\<forall>b other token' u'. fst (delete_route e req w) = Respond 200 b
            \<and> distinct (map p_id (posts w))
            \<and> token_of (authorization other) = Some token' \<and> token' \<noteq> []
            \<and> jwt_verify e token' (JWT_SECRET e) (now e) = Some u'
            \<and> param_id other = param_id req \<longrightarrow>
            fst (delete_route e other (snd (delete_route e req w)))
              = Respond 403 (Msg ''Unauthorized or not found'')
            \<and> (update_post_error e = None \<longrightarrow>
                 fst (put_route e other (snd (delete_route e req w)))
                   = Respond 403 (Msg ''Unauthorized or not found''))"
  proof (intro allI impI)
    fix b and other :: request and token' u'
    assume a: "fst (delete_route e req w) = Respond 200 b
            \<and> distinct (map p_id (posts w))
            \<and> token_of (authorization other) = Some token' \<and> token' \<noteq> []
            \<and> jwt_verify e token' (JWT_SECRET e) (now e) = Some u'
            \<and> param_id other = param_id req"
    let ?w1 = "snd (delete_route e req w)"
    let ?other = "other\<lparr>user := Some u'\<rparr>"
    from a have deleted: "fst (delete_post e ?req w) = Respond 200 b"
      by (simp add: del)
    from delete_post_done [OF u deleted] obtain k row
      where k: "pg_integer e (param_id req) = Some k" and ok: "delete_post_error e = None"
        and left: "posts ?w1 = filter (\<lambda>p. \<not> (int (p_id p) = k \<and> p_user_id p = d_id u)) (posts w)"
        and row: "row \<in> set (posts w)" "int (p_id row) = k" "p_user_id row = d_id u"
      by (auto simp: del)
    from a have inj: "inj_on p_id (set (posts w))"
      by (simp add: distinct_map)
    have only: "p = row" if "p \<in> set (posts w)" "int (p_id p) = k" for p
    proof -
      from that(2) row(2) have "p_id p = p_id row"
        by simp
      with that(1) row(1) show ?thesis
        using inj_onD [OF inj, of p row] by simp
    qed
    have gone: "\<forall>p\<in>set (posts ?w1). int (p_id p) = k \<longrightarrow> p_user_id p \<noteq> d_id u'"
    proof (intro ballI impI)
      fix p
      assume p: "p \<in> set (posts ?w1)" and same: "int (p_id p) = k"
      from p left
      have kept: "p \<in> set (posts w)" "\<not> (int (p_id p) = k \<and> p_user_id p = d_id u)"
        by simp_all
      from kept(1) same have "p = row"
        by (rule only)
      with row(2,3) kept(2) show "p_user_id p \<noteq> d_id u'"
        by simp
    qed
    from k a have k': "pg_integer e (param_id ?other) = Some k"
      by simp
    have u': "user ?other = Some u'"
      by simp
    from a have auth': "token_of (authorization other) = Some token'" "token' \<noteq> []"
      "jwt_verify e token' (JWT_SECRET e) (now e) = Some u'"
      by simp_all
    have dlt: "fst (delete_route e other ?w1) = Respond 403 (Msg ''Unauthorized or not found'')"
      using delete_post_no_row(1) [OF u' ok k' gone]
      by (simp add: delete_route_passes [OF auth'])
    have upd: "update_post_error e = None \<longrightarrow>
                 fst (put_route e other ?w1) = Respond 403 (Msg ''Unauthorized or not found'')"
      using update_post_no_row [OF u' _ k' gone]
      by (simp add: put_route_passes [OF auth'])
    from dlt upd
    show "fst (delete_route e other ?w1) = Respond 403 (Msg ''Unauthorized or not found'')
        \<and> (update_post_error e = None \<longrightarrow>
             fst (put_route e other ?w1) = Respond 403 (Msg ''Unauthorized or not found''))"
      by blast
  qed
  from part1 part2 part3 part4 part5 part6 show ?thesis
    by (intro conjI)
qed

lemma toy_accepts_bob:
  "jwt_verify toy_env bob_token (JWT_SECRET toy_env) (now toy_env) = Some bob_decoded"
  by (simp add: toy_env_def toy_verify_def bob_token_def bob_decoded_def startsWith_def)

lemma bob_header: "token_of (Some (''Bearer '' @ bob_token)) = Some bob_token"
  using token_of_scheme [of "''Bearer''" bob_token] by (simp add: bob_token_def)

lemma serial_of_examples:
  "serial_of ''1'' = Some 1"
  "serial_of ''abc'' = None"
  "serial_of ''9223372036854775808'' = None"
  by (simp_all add: serial_of_def digit_def)

theorem not_owner_forbidden_witness:
  "fst (put_route toy_env bob_request toy_world) = Respond 403 (Msg ''Unauthorized or not found'')
   \<and> posts (snd (put_route toy_env bob_request toy_world)) = [first_post]
   \<and> fst (delete_route toy_env bob_request toy_world)
       = Respond 403 (Msg ''Unauthorized or not found'')
   \<and> posts (snd (delete_route toy_env bob_request toy_world)) = [first_post]
   \<and> fst (delete_route toy_env (bob_request\<lparr>param_id := ''abc''\<rparr>) toy_world)
       = Respond 500 (Failure ''Delete failed'' (InvalidInteger ''abc''))
   \<and> posts (snd (delete_route toy_env (bob_request\<lparr>param_id := ''abc''\<rparr>) toy_world))
       = [first_post]
   \<and> fst (put_route (toy_env\<lparr>update_post_error := Some ''connection lost''\<rparr>)
             bob_request toy_world)
       = Respond 500 (Failure ''Update failed'' (DatabaseError ''connection lost''))
   \<and> fst (delete_route (toy_env\<lparr>delete_post_error := Some ''connection lost''\<rparr>)
             bob_request toy_world)
       = Respond 500 (Failure ''Delete failed'' (DatabaseError ''connection lost''))
   \<and> fst (delete_route toy_env ada_request toy_world)
       = Respond 200 (Msg ''Post deleted successfully'')
   \<and> fst (delete_route toy_env ada_request (snd (delete_route toy_env ada_request toy_world)))
       = Respond 403 (Msg ''Unauthorized or not found'')
   \<and> fst (put_route toy_env ada_request (snd (delete_route toy_env ada_request toy_world)))
       = Respond 403 (Msg ''Unauthorized or not found'')
   \<and> fst (delete_route toy_env bob_request (snd (delete_route toy_env ada_request toy_world)))
       = Respond 403 (Msg ''Unauthorized or not found'')"
proof -
  let ?down_put = "toy_env\<lparr>update_post_error := Some ''connection lost''\<rparr>"
  let ?down_del = "toy_env\<lparr>delete_post_error := Some ''connection lost''\<rparr>"
  have bob: "token_of (authorization bob_request) = Some bob_token" "bob_token \<noteq> []"
    "jwt_verify toy_env bob_token (JWT_SECRET toy_env) (now toy_env) = Some bob_decoded"
    using bob_header toy_accepts_bob by (simp_all add: bob_request_def bob_token_def)
  have bob_abc: "token_of (authorization (bob_request\<lparr>param_id := ''abc''\<rparr>)) = Some bob_token"
    using bob(1) by simp
  have bob_down: "jwt_verify ?down_put bob_token (JWT_SECRET ?down_put) (now ?down_put)
                    = Some bob_decoded"
    "jwt_verify ?down_del bob_token (JWT_SECRET ?down_del) (now ?down_del) = Some bob_decoded"
    using toy_accepts_bob by simp_all
  have ada: "token_of (authorization ada_request) = Some ada_token" "ada_token \<noteq> []"
    "jwt_verify toy_env ada_token (JWT_SECRET toy_env) (now toy_env) = Some ada_decoded"
    using ada_header toy_accepts_ada(2) by (simp_all add: ada_request_def ada_token_def)
  have executes: "update_post_error toy_env = None" "delete_post_error toy_env = None"
    "update_post_error ?down_put = Some ''connection lost''"
    "delete_post_error ?down_del = Some ''connection lost''"
    by (simp_all add: toy_env_def)
  have one: "pg_integer toy_env (param_id bob_request) = Some 1"
    "pg_integer toy_env (param_id ada_request) = Some 1"
    by (simp_all add: toy_env_def bob_request_def ada_request_def serial_of_examples)
  have unread: "pg_integer toy_env (param_id (bob_request\<lparr>param_id := ''abc''\<rparr>)) = None"
    by (simp add: toy_env_def serial_of_examples)
  have foreign: "\<forall>p\<in>set (posts toy_world). int (p_id p) = 1 \<longrightarrow> p_user_id p \<noteq> d_id bob_decoded"
    by (simp add: toy_world_def first_post_def bob_decoded_def)
  have table: "posts toy_world = [first_post]"
    by (simp add: toy_world_def)
  have keys: "distinct (map p_id (posts toy_world))"
    by (simp add: toy_world_def)
  have same: "param_id bob_request = param_id ada_request"
    by (simp add: bob_request_def)
  have deleted: "fst (delete_route toy_env ada_request toy_world)
                   = Respond 200 (Msg ''Post deleted successfully'')"
    unfolding delete_route_passes [OF ada]
    by (simp add: delete_post_def query_DELETE_def toy_env_def serial_of_examples
          ada_request_def toy_world_def first_post_def ada_decoded_def)
  note as_bob = not_owner_forbidden [OF bob, of toy_world]
  note as_bob_abc = not_owner_forbidden [OF bob_abc bob(2,3), of toy_world]
  note put_down = not_owner_forbidden [OF bob(1,2) bob_down(1), of toy_world]
  note del_down = not_owner_forbidden [OF bob(1,2) bob_down(2), of toy_world]
  note as_ada = not_owner_forbidden [OF ada, of toy_world]
  have a: "fst (put_route toy_env bob_request toy_world)
             = Respond 403 (Msg ''Unauthorized or not found'')
           \<and> posts (snd (put_route toy_env bob_request toy_world)) = posts toy_world
           \<and> fst (delete_route toy_env bob_request toy_world)
               = Respond 403 (Msg ''Unauthorized or not found'')
           \<and> posts (snd (delete_route toy_env bob_request toy_world)) = posts toy_world"
    using as_bob one(1) foreign executes(1,2) by blast
  have b: "fst (delete_route toy_env (bob_request\<lparr>param_id := ''abc''\<rparr>) toy_world)
             = Respond 500 (Failure ''Delete failed''
                 (InvalidInteger (param_id (bob_request\<lparr>param_id := ''abc''\<rparr>))))
           \<and> posts (snd (delete_route toy_env (bob_request\<lparr>param_id := ''abc''\<rparr>) toy_world))
               = posts toy_world"
    using as_bob_abc unread executes(2) by blast
  have c: "fst (put_route ?down_put bob_request toy_world)
             = Respond 500 (Failure ''Update failed'' (DatabaseError ''connection lost''))"
    using put_down executes(3) by blast
  have d: "fst (delete_route ?down_del bob_request toy_world)
             = Respond 500 (Failure ''Delete failed'' (DatabaseError ''connection lost''))"
    using del_down executes(4) by blast
  have f: "fst (delete_route toy_env ada_request (snd (delete_route toy_env ada_request toy_world)))
             = Respond 403 (Msg ''Unauthorized or not found'')
           \<and> fst (put_route toy_env ada_request (snd (delete_route toy_env ada_request toy_world)))
             = Respond 403 (Msg ''Unauthorized or not found'')"
    using as_ada deleted executes(1) by blast
  have g: "fst (delete_route toy_env bob_request (snd (delete_route toy_env ada_request toy_world)))
             = Respond 403 (Msg ''Unauthorized or not found'')"
    using as_ada deleted keys bob same by blast
  from a b c d deleted f g table show ?thesis
    by simp
qed

text \<open>
  C7 as stated promises 403 whenever no post with the id exists. No post has the id
  \<^verbatim>\<open>abc\<close> or the id 9223372036854775808, and the requests get to the handlers (the
  tokens verify); the server cannot read either as an id of the column, the query is
  rejected, and the handlers' \<^verbatim>\<open>catch\<close> answers 500.
\<close>

theorem unreadable_id_is_answered_500:
  "fst (delete_route toy_env (ada_request\<lparr>param_id := ''abc''\<rparr>) toy_world)
     = Respond 500 (Failure ''Delete failed'' (InvalidInteger ''abc''))
   \<and> fst (put_route toy_env (bob_request\<lparr>param_id := ''9223372036854775808''\<rparr>) toy_world)
     = Respond 500 (Failure ''Update failed'' (InvalidInteger ''9223372036854775808''))"
proof -
  have ada: "token_of (authorization (ada_request\<lparr>param_id := ''abc''\<rparr>)) = Some ada_token"
    "ada_token \<noteq> []"
    "jwt_verify toy_env ada_token (JWT_SECRET toy_env) (now toy_env) = Some ada_decoded"
    using ada_header toy_accepts_ada(2) by (simp_all add: ada_request_def ada_token_def)
  have bob: "token_of (authorization (bob_request\<lparr>param_id := ''9223372036854775808''\<rparr>))
               = Some bob_token" "bob_token \<noteq> []"
    "jwt_verify toy_env bob_token (JWT_SECRET toy_env) (now toy_env) = Some bob_decoded"
    using bob_header toy_accepts_bob by (simp_all add: bob_request_def bob_token_def)
  have first: "fst (delete_route toy_env (ada_request\<lparr>param_id := ''abc''\<rparr>) toy_world)
     = Respond 500 (Failure ''Delete failed'' (InvalidInteger ''abc''))"
    unfolding delete_route_passes [OF ada]
    by (simp add: delete_post_def query_DELETE_def toy_env_def serial_of_examples)
  have second: "fst (put_route toy_env (bob_request\<lparr>param_id := ''9223372036854775808''\<rparr>) toy_world)
     = Respond 500 (Failure ''Update failed'' (InvalidInteger ''9223372036854775808''))"
    unfolding put_route_passes [OF bob]
    by (simp add: update_post_def query_UPDATE_def toy_env_def serial_of_examples)
  from first second show ?thesis
    by (intro conjI)
qed

lemma null_violation_None:
  "null_violation e t d c = None \<longleftrightarrow>
     (not_null e Title \<longrightarrow> t \<noteq> None) \<and> (not_null e Description \<longrightarrow> d \<noteq> None)
     \<and> (not_null e Content \<longrightarrow> c \<noteq> None)"
  by (auto simp: null_violation_def)

lemma put_route_never_400:
  assumes "token_of (authorization req) = Some token" and "token \<noteq> []"
    and "jwt_verify e token (JWT_SECRET e) (now e) = Some u"
  shows "status (fst (put_route e req w)) \<noteq> Some 400"
proof -
  have "put_route e req w = update_post e (req\<lparr>user := Some u\<rparr>) w"
    using assms by (rule put_route_passes)
  then show ?thesis
    by (simp add: update_post_def status_def split: prod.splits sum.splits list.splits)
qed

text \<open>
  C10. PUT never validates the body: an authenticated PUT is never answered 400. For the
  owner of the post, on a server that executes the statement, the values go into the
  UPDATE as they are: when no NOT NULL column receives a missing value the answer is 200
  with the written row, and the posts table after the request is the table before it
  with exactly the values sent (NULL for a missing one) written into the title,
  description and content of the owner's row and every other row untouched; when a
  NOT NULL column does receive a missing value, the statement fails, the answer is 500
  ``Update failed'' and the table is unchanged. The creation handler, given the same
  fields, answers 400.
\<close>

theorem update_takes_missing_fields:
  assumes auth: "token_of (authorization req) = Some token" "token \<noteq> []"
      "jwt_verify e token (JWT_SECRET e) (now e) = Some u"
  shows "status (fst (put_route e req w)) \<noteq> Some 400
     \<and> (\<forall>k. pg_integer e (param_id req) = Some k \<and> update_post_error e = None
            \<and> (\<exists>p\<in>set (posts w). int (p_id p) = k \<and> p_user_id p = d_id u) \<longrightarrow>
          ((not_null e Title \<longrightarrow> title req \<noteq> None)
            \<and> (not_null e Description \<longrightarrow> description req \<noteq> None)
            \<and> (not_null e Content \<longrightarrow> content req \<noteq> None) \<longrightarrow>
            (\<exists>old\<in>set (posts w). int (p_id old) = k \<and> p_user_id old = d_id u
               \<and> fst (put_route e req w)
                   = Respond 200
                       (Post (old\<lparr>p_title := title req, p_description := description req,
                                  p_content := content req\<rparr>)))
            \<and> posts (snd (put_route e req w))
                = map (\<lambda>p. if int (p_id p) = k \<and> p_user_id p = d_id u
                            then p\<lparr>p_title := title req, p_description := description req,
                                   p_content := content req\<rparr>
                            else p) (posts w)
            \<and> attachments (snd (put_route e req w)) = attachments w)
          \<and> ((not_null e Title \<and> title req = None)
               \<or> (not_null e Description \<and> description req = None)
               \<or> (not_null e Content \<and> content req = None) \<longrightarrow>
               (\<exists>col. fst (put_route e req w)
                         = Respond 500 (Failure ''Update failed'' (NotNullViolation col))
                  \<and> not_null e col)
               \<and> posts (snd (put_route e req w)) = posts w
               \<and> attachments (snd (put_route e req w)) = attachments w))
     \<and> (title req = None \<or> description req = None \<or> content req = None \<longrightarrow>
          fst (create_post e (req\<lparr>user := Some u\<rparr>) w)
            = Respond 400 (Msg ''Missing required fields''))"
proof -
  let ?req = "req\<lparr>user := Some u\<rparr>"
  let ?written = "\<lambda>p. p\<lparr>p_title := title req, p_description := description req,
                          p_content := content req\<rparr>"
  have put: "put_route e req w = update_post e ?req w"
    using auth by (rule put_route_passes)
  have never: "status (fst (put_route e req w)) \<noteq> Some 400"
    using auth by (rule put_route_never_400)
  have owner: "\<forall>k. pg_integer e (param_id req) = Some k \<and> update_post_error e = None
            \<and> (\<exists>p\<in>set (posts w). int (p_id p) = k \<and> p_user_id p = d_id u) \<longrightarrow>
          ((not_null e Title \<longrightarrow> title req \<noteq> None)
            \<and> (not_null e Description \<longrightarrow> description req \<noteq> None)
            \<and> (not_null e Content \<longrightarrow> content req \<noteq> None) \<longrightarrow>
            (\<exists>old\<in>set (posts w). int (p_id old) = k \<and> p_user_id old = d_id u
               \<and> fst (put_route e req w) = Respond 200 (Post (?written old)))
            \<and> posts (snd (put_route e req w))
                = map (\<lambda>p. if int (p_id p) = k \<and> p_user_id p = d_id u then ?written p else p)
                    (posts w)
            \<and> attachments (snd (put_route e req w)) = attachments w)
          \<and> ((not_null e Title \<and> title req = None)
               \<or> (not_null e Description \<and> description req = None)
               \<or> (not_null e Content \<and> content req = None) \<longrightarrow>
               (\<exists>col. fst (put_route e req w)
                         = Respond 500 (Failure ''Update failed'' (NotNullViolation col))
                  \<and> not_null e col)
               \<and> posts (snd (put_route e req w)) = posts w
               \<and> attachments (snd (put_route e req w)) = attachments w)"
  proof (intro allI impI)
    fix k
    assume a: "pg_integer e (param_id req) = Some k \<and> update_post_error e = None
            \<and> (\<exists>p\<in>set (posts w). int (p_id p) = k \<and> p_user_id p = d_id u)"
    let ?hit = "\<lambda>p. int (p_id p) = k \<and> p_user_id p = d_id u"
    from a obtain row rows where rows: "filter ?hit (posts w) = row # rows"
      by (cases "filter ?hit (posts w)") (auto simp: filter_empty_conv)
    then have "row \<in> set (filter ?hit (posts w))"
      by simp
    then have row: "row \<in> set (posts w)" "int (p_id row) = k" "p_user_id row = d_id u"
      by simp_all
    have ok: "fst (put_route e req w) = Respond 200 (Post (?written row))
         \<and> posts (snd (put_route e req w)) = map (\<lambda>p. if ?hit p then ?written p else p) (posts w)
         \<and> attachments (snd (put_route e req w)) = attachments w"
      if "null_violation e (title req) (description req) (content req) = None"
      using that rows a by (simp add: put update_post_def query_UPDATE_def)
    have bad: "fst (put_route e req w) = Respond 500 (Failure ''Update failed'' (NotNullViolation col))
         \<and> posts (snd (put_route e req w)) = posts w
         \<and> attachments (snd (put_route e req w)) = attachments w"
      if "null_violation e (title req) (description req) (content req) = Some col" for col
      using that rows a by (simp add: put update_post_def query_UPDATE_def)
    have accepted: "(not_null e Title \<longrightarrow> title req \<noteq> None)
            \<and> (not_null e Description \<longrightarrow> description req \<noteq> None)
            \<and> (not_null e Content \<longrightarrow> content req \<noteq> None) \<longrightarrow>
            (\<exists>old\<in>set (posts w). int (p_id old) = k \<and> p_user_id old = d_id u
               \<and> fst (put_route e req w) = Respond 200 (Post (?written old)))
            \<and> posts (snd (put_route e req w))
                = map (\<lambda>p. if int (p_id p) = k \<and> p_user_id p = d_id u then ?written p else p)
                    (posts w)
            \<and> attachments (snd (put_route e req w)) = attachments w"
    proof
      assume "(not_null e Title \<longrightarrow> title req \<noteq> None)
            \<and> (not_null e Description \<longrightarrow> description req \<noteq> None)
            \<and> (not_null e Content \<longrightarrow> content req \<noteq> None)"
      then have "null_violation e (title req) (description req) (content req) = None"
        by (simp add: null_violation_None)
      from ok [OF this] row
      show "(\<exists>old\<in>set (posts w). int (p_id old) = k \<and> p_user_id old = d_id u
               \<and> fst (put_route e req w) = Respond 200 (Post (?written old)))
            \<and> posts (snd (put_route e req w))
                = map (\<lambda>p. if int (p_id p) = k \<and> p_user_id p = d_id u then ?written p else p)
                    (posts w)
            \<and> attachments (snd (put_route e req w)) = attachments w"
        by blast
    qed
    have refused: "(not_null e Title \<and> title req = None)
               \<or> (not_null e Description \<and> description req = None)
               \<or> (not_null e Content \<and> content req = None) \<longrightarrow>
               (\<exists>col. fst (put_route e req w)
                         = Respond 500 (Failure ''Update failed'' (NotNullViolation col))
                  \<and> not_null e col)
               \<and> posts (snd (put_route e req w)) = posts w
               \<and> attachments (snd (put_route e req w)) = attachments w"
    proof
      assume "(not_null e Title \<and> title req = None)
               \<or> (not_null e Description \<and> description req = None)
               \<or> (not_null e Content \<and> content req = None)"
      then have "null_violation e (title req) (description req) (content req) \<noteq> None"
        by (auto simp: null_violation_None)
      then obtain col
        where col: "null_violation e (title req) (description req) (content req) = Some col"
        by auto
      then have "not_null e col"
        by (auto simp: null_violation_def split: if_splits)
      with bad [OF col]
      show "(\<exists>col. fst (put_route e req w)
                         = Respond 500 (Failure ''Update failed'' (NotNullViolation col))
                  \<and> not_null e col)
               \<and> posts (snd (put_route e req w)) = posts w
               \<and> attachments (snd (put_route e req w)) = attachments w"
        by blast
    qed
    from accepted refused
    show "((not_null e Title \<longrightarrow> title req \<noteq> None)
            \<and> (not_null e Description \<longrightarrow> description req \<noteq> None)
            \<and> (not_null e Content \<longrightarrow> content req \<noteq> None) \<longrightarrow>
            (\<exists>old\<in>set (posts w). int (p_id old) = k \<and> p_user_id old = d_id u
               \<and> fst (put_route e req w) = Respond 200 (Post (?written old)))
            \<and> posts (snd (put_route e req w))
                = map (\<lambda>p. if int (p_id p) = k \<and> p_user_id p = d_id u then ?written p else p)
                    (posts w)
            \<and> attachments (snd (put_route e req w)) = attachments w)
          \<and> ((not_null e Title \<and> title req = None)
               \<or> (not_null e Description \<and> description req = None)
               \<or> (not_null e Content \<and> content req = None) \<longrightarrow>
               (\<exists>col. fst (put_route e req w)
                         = Respond 500 (Failure ''Update failed'' (NotNullViolation col))
                  \<and> not_null e col)
               \<and> posts (snd (put_route e req w)) = posts w
               \<and> attachments (snd (put_route e req w)) = attachments w)"
      by (intro conjI)
  qed
  have create: "title req = None \<or> description req = None \<or> content req = None \<longrightarrow>
          fst (create_post e ?req w) = Respond 400 (Msg ''Missing required fields'')"
    by (auto simp: create_post_def falsy_def)
  from never owner create show ?thesis
    by (intro conjI)
qed

theorem update_takes_missing_fields_witness:
  "status (fst (put_route toy_env (ada_request\<lparr>title := None\<rparr>) toy_world)) \<noteq> Some 400
   \<and> (\<exists>col. fst (put_route toy_env (ada_request\<lparr>title := None\<rparr>) toy_world)
               = Respond 500 (Failure ''Update failed'' (NotNullViolation col)))
   \<and> posts (snd (put_route toy_env (ada_request\<lparr>title := None\<rparr>) toy_world)) = [first_post]
   \<and> fst (put_route lax_env (ada_request\<lparr>title := None\<rparr>) toy_world)
       = Respond 200 (Post (first_post\<lparr>p_title := None, p_description := Some ''On cats'',
                                      p_content := Some ''Cats are fine.''\<rparr>))
   \<and> posts (snd (put_route lax_env (ada_request\<lparr>title := None\<rparr>) toy_world))
       = [first_post\<lparr>p_title := None, p_description := Some ''On cats'',
                     p_content := Some ''Cats are fine.''\<rparr>]
   \<and> fst (create_post toy_env (ada_request\<lparr>title := None, user := Some ada_decoded\<rparr>) toy_world)
       = Respond 400 (Msg ''Missing required fields'')"
proof -
  let ?req = "ada_request\<lparr>title := None\<rparr>"
  have ada: "token_of (authorization ?req) = Some ada_token"
    "ada_token \<noteq> []"
    "jwt_verify toy_env ada_token (JWT_SECRET toy_env) (now toy_env) = Some ada_decoded"
    "jwt_verify lax_env ada_token (JWT_SECRET lax_env) (now lax_env) = Some ada_decoded"
    using ada_header toy_accepts_ada(2)
    by (simp_all add: ada_request_def ada_token_def lax_env_def)
  have one: "pg_integer toy_env (param_id ?req) = Some 1 \<and> update_post_error toy_env = None"
    "pg_integer lax_env (param_id ?req) = Some 1 \<and> update_post_error lax_env = None"
    by (simp_all add: toy_env_def lax_env_def ada_request_def serial_of_examples)
  have owner: "\<exists>p\<in>set (posts toy_world). int (p_id p) = 1 \<and> p_user_id p = d_id ada_decoded"
    by (simp add: toy_world_def first_post_def ada_decoded_def)
  have strict: "not_null toy_env Title \<and> title ?req = None"
    by (simp add: toy_env_def)
  have lax: "\<not> not_null lax_env Title \<and> \<not> not_null lax_env Description
      \<and> \<not> not_null lax_env Content"
    by (simp add: lax_env_def)
  have table: "posts toy_world = [first_post]"
    by (simp add: toy_world_def)
  have fields: "title ?req = None" "description ?req = Some ''On cats''"
    "content ?req = Some ''Cats are fine.''"
    by (simp_all add: ada_request_def)
  note strictly = update_takes_missing_fields [OF ada(1,2,3), of toy_world]
  note laxly = update_takes_missing_fields [OF ada(1,2,4), of toy_world]
  have a: "status (fst (put_route toy_env ?req toy_world)) \<noteq> Some 400"
    using strictly by blast
  have b: "\<exists>col. fst (put_route toy_env ?req toy_world)
               = Respond 500 (Failure ''Update failed'' (NotNullViolation col))"
    using strictly one(1) owner strict by blast
  have c: "posts (snd (put_route toy_env ?req toy_world)) = posts toy_world"
    using strictly one(1) owner strict by blast
  from laxly one(2) owner lax
  have written: "(\<exists>old\<in>set (posts toy_world). int (p_id old) = 1 \<and> p_user_id old = d_id ada_decoded
               \<and> fst (put_route lax_env ?req toy_world)
                   = Respond 200
                       (Post (old\<lparr>p_title := title ?req, p_description := description ?req,
                                  p_content := content ?req\<rparr>)))
            \<and> posts (snd (put_route lax_env ?req toy_world))
                = map (\<lambda>p. if int (p_id p) = 1 \<and> p_user_id p = d_id ada_decoded
                            then p\<lparr>p_title := title ?req, p_description := description ?req,
                                   p_content := content ?req\<rparr>
                            else p) (posts toy_world)"
    by blast
  then have d: "fst (put_route lax_env ?req toy_world)
       = Respond 200 (Post (first_post\<lparr>p_title := None, p_description := Some ''On cats'',
                                      p_content := Some ''Cats are fine.''\<rparr>))"
    by (simp add: table fields)
  from written have "posts (snd (put_route lax_env ?req toy_world))
                = map (\<lambda>p. if int (p_id p) = 1 \<and> p_user_id p = d_id ada_decoded
                            then p\<lparr>p_title := title ?req, p_description := description ?req,
                                   p_content := content ?req\<rparr>
                            else p) (posts toy_world)"
    by blast
  then have f: "posts (snd (put_route lax_env ?req toy_world))
       = [first_post\<lparr>p_title := None, p_description := Some ''On cats'',
                     p_content := Some ''Cats are fine.''\<rparr>]"
    by (simp add: table fields first_post_def ada_decoded_def)
  have "fst (create_post toy_env (?req\<lparr>user := Some ada_decoded\<rparr>) toy_world)
       = Respond 400 (Msg ''Missing required fields'')"
    using strictly fields(1) by blast
  then have g: "fst (create_post toy_env (ada_request\<lparr>title := None, user := Some ada_decoded\<rparr>) toy_world)
       = Respond 400 (Msg ''Missing required fields'')"
    by simp
  from a b c d f g table show ?thesis
    by simp
qed

section \<open>Login\<close>















end
